theory Spec2Isabelle
  imports Complex_Main
begin

section \<open>JavaScript values\<close>

text \<open>
  The nodes compute with JavaScript numbers. The counters the code itself counts (success
  count, consecutive failures), the failure threshold, status codes and ports are integers
  here; the number of pings, which the loops only compare with their index, the timeout
  and the latencies are reals, so that a fractional number of pings is an input like any
  other. The rounding of IEEE doubles is not modelled. The two special values the code can
  meet are kept: \<open>Infinity\<close>, the start value of \<open>minTime\<close>, and \<open>NaN\<close>, the
  value of \<open>0 / 0\<close>.
\<close>

datatype number = Num real | Infinity | NegInfinity | NaN

text \<open>\<open>a / b\<close> on finite operands.\<close>

definition divide_js :: "real \<Rightarrow> real \<Rightarrow> number" where
  "divide_js a b =
     (if b = 0 then (if a = 0 then NaN else if 0 < a then Infinity else NegInfinity)
      else Num (a / b))"

text \<open>\<open>x * c\<close> for a finite factor \<open>c > 0\<close> (the code multiplies by 100 only).\<close>

definition times_js :: "number \<Rightarrow> real \<Rightarrow> number" where
  "times_js x c = (case x of Num r \<Rightarrow> Num (r * c) | other \<Rightarrow> other)"

text \<open>\<open>time < minTime\<close>, with a finite left operand.\<close>

definition less_js :: "real \<Rightarrow> number \<Rightarrow> bool" where
  "less_js t m = (case m of Num r \<Rightarrow> t < r | Infinity \<Rightarrow> True | NegInfinity \<Rightarrow> False | NaN \<Rightarrow> False)"

text \<open>
  Strings are literals or template literals with a number in a hole; the holes stay
  symbolic, so that number formatting (\<open>toFixed\<close>) is not part of the model.
\<close>

datatype str =
    Lit string
  | FixedMs number             \<comment> \<open>\<open>`${x.toFixed(2)} ms`\<close>\<close>
  | FixedPercent number        \<comment> \<open>\<open>`${x.toFixed(1)}%`\<close>\<close>
  | Millis real                \<comment> \<open>\<open>`${x} ms`\<close>\<close>
  | MillisTimeout real         \<comment> \<open>\<open>`${x} ms (timeout)`\<close>\<close>
  | HighLatencyFixed real real \<comment> \<open>\<open>`High latency detected (${x.toFixed(2)}ms > ${y}ms threshold)`\<close>\<close>
  | HighLatency real real      \<comment> \<open>\<open>`High latency detected (${x}ms > ${y}ms threshold)`\<close>\<close>
  | HostPort string int        \<comment> \<open>\<open>`${host}:${port}`\<close>\<close>
  | IPv int                    \<comment> \<open>\<open>`IPv${family}`\<close>\<close>
  | OutOfRange string real     \<comment> \<open>the platform's message for a duration \<open>name\<close> out of range\<close>
  | BadPort int                \<comment> \<open>the platform's message for a port out of range\<close>

text \<open>An \<open>IDataObject\<close> is a JSON object: its keys in insertion order.\<close>

datatype json =
    JString str
  | JNumber number
  | JInt int
  | JBool bool
  | JObject "(string \<times> json) list"

type_synonym IDataObject = "(string \<times> json) list"

text \<open>Property assignment \<open>obj.k = v\<close>: an existing key keeps its place.\<close>

primrec assign :: "string \<Rightarrow> json \<Rightarrow> IDataObject \<Rightarrow> IDataObject" where
  "assign k v [] = [(k, v)]"
| "assign k v (p # ps) = (if fst p = k then (k, v) # ps else p # assign k v ps)"

text \<open>Property read \<open>obj.k\<close>; \<open>None\<close> is \<open>undefined\<close>.\<close>

definition field :: "IDataObject \<Rightarrow> string \<Rightarrow> json option" where
  "field obj k = map_of obj k"

text \<open>A property of the nested \<open>details\<close> object.\<close>

definition detail :: "IDataObject \<Rightarrow> string \<Rightarrow> json option" where
  "detail obj k = (case field obj ''details'' of Some (JObject d) \<Rightarrow> field d k | _ \<Rightarrow> None)"

definition online_offline :: "bool \<Rightarrow> json" where
  "online_offline b = JString (Lit (if b then ''online'' else ''offline''))"

section \<open>The world outside the node\<close>

text \<open>
  What the \<open>ping\<close> package reports for one probe. \<open>time\<close> is a number, or the string
  \<open>'unknown'\<close> when no reply was parsed.
\<close>

datatype ping_time = Time real | Unknown

record PingResponse =
  alive :: bool
  time :: ping_time
  output' :: string
  numeric_host :: string

text \<open>The events a request can end with; the reals are the elapsed milliseconds.\<close>

datatype http_event =
    HttpResponse "int option" string real  \<comment> \<open>\<open>res.statusCode\<close>, \<open>res.statusMessage\<close>\<close>
  | HttpTimeout
  | HttpError string real

datatype tcp_event = TcpConnect real | TcpTimeout real | TcpError string real

datatype dns_event =
    DnsTimer                     \<comment> \<open>the node's own timer fired first\<close>
  | DnsError string real
  | DnsAddress string int real   \<comment> \<open>address and family\<close>

text \<open>
  The network answers the requests of one run in the order they are sent: \<open>pingReply w k\<close>
  is the answer to the \<open>k\<close>-th request, and every function that sends requests takes the
  number of requests sent so far and returns the new number. \<open>validUrl\<close> is the platform's
  URL parser (\<open>new URL(url)\<close> throws a \<open>TypeError\<close> where it is false), \<open>now\<close> the
  reading of \<open>new Date().toISOString()\<close>.

  The platform checks two more arguments before anything is sent: \<open>http.request\<close> and
  \<open>socket.setTimeout\<close> throw a \<open>RangeError\<close> for a negative duration, and
  \<open>socket.connect\<close> throws one for a port outside 0..65535. All three run inside the
  executor of the check's promise, so the promise is rejected.
\<close>

record world =
  pingReply :: "nat \<Rightarrow> PingResponse"
  httpReply :: "nat \<Rightarrow> http_event"
  tcpReply :: "nat \<Rightarrow> tcp_event"
  dnsReply :: "nat \<Rightarrow> dns_event"
  validUrl :: "string \<Rightarrow> bool"
  now :: string

datatype error =
    NodeOperationError string
  | TypeError string
  | RangeError str

definition message :: "error \<Rightarrow> str" where
  "message e =
     (case e of NodeOperationError m \<Rightarrow> Lit m | TypeError m \<Rightarrow> Lit m | RangeError m \<Rightarrow> m)"

definition validPort :: "int \<Rightarrow> bool" where
  "validPort n = (0 \<le> n \<and> n \<le> 65535)"

section \<open>Node parameters and persisted state\<close>

text \<open>
  The \<open>options\<close> collection: every key is optional (\<open>None\<close> is an absent key). The
  parameters are those \<open>getNodeParameter\<close> is asked for, by name, over the four nodes.
\<close>

record options =
  timeout :: "real option"
  numberOfPings :: "real option"
  failureThreshold :: "int option"
  includeRawOutput :: "bool option"
  includeDetails :: "bool option"

record parameters =
  host :: string
  checkType :: string
  url :: string
  httpMethod :: string
  acceptAnyStatus :: bool
  port :: int
  domain :: string
  triggerMode :: string
  latencyThreshold :: real
  options :: options

text \<open>\<open>getWorkflowStaticData('node')\<close>: both keys are absent before the first poll.\<close>

record workflowStaticData =
  previousStatus :: "bool option"
  consecutiveFailures :: "int option"

section \<open>Ping Trigger\<close>

text \<open>The statistics both ping loops keep.\<close>

record counters =
  successCount :: int
  totalTime :: real
  minTime :: number
  maxTime :: real

text \<open>\<open>parseFloat(result.time as string) || 0\<close>\<close>

definition parseFloat_or_0 :: "ping_time \<Rightarrow> real" where
  "parseFloat_or_0 t = (case t of Time x \<Rightarrow> x | Unknown \<Rightarrow> 0)"

text \<open>The body of \<open>if (result.alive) { ... }\<close>, the same in both ping loops.\<close>

definition count :: "PingResponse \<Rightarrow> counters \<Rightarrow> counters" where
  "count result c =
     (if alive result then
        (let t = parseFloat_or_0 (time result) in
         \<lparr> successCount = successCount c + 1,
           totalTime = totalTime c + t,
           minTime = (if less_js t (minTime c) then Num t else minTime c),
           maxTime = (if t > maxTime c then t else maxTime c) \<rparr>)
      else c)"

definition counters0 :: counters where
  "counters0 = \<lparr> successCount = 0, totalTime = 0, minTime = Infinity, maxTime = 0 \<rparr>"

text \<open>
  \<open>for (let i = 0; i < numberOfPings; i++)\<close> of the trigger: the state is the counters,
  \<open>lastOutput\<close>, \<open>numericHost\<close> and the number of probes sent.
\<close>

function pingLoop ::
  "world \<Rightarrow> real \<Rightarrow> nat \<Rightarrow> counters \<times> string \<times> string \<times> nat \<Rightarrow> counters \<times> string \<times> string \<times> nat" where
  "pingLoop w n i (c, lastOutput, numericHost, sent) =
     (if real i < n then
        (let result = pingReply w sent in
         pingLoop w n (Suc i) (count result c, output' result, numeric_host result, Suc sent))
      else (c, lastOutput, numericHost, sent))"
  by pat_completeness auto
termination
  by (relation "measure (\<lambda>(w, n, i, s). nat \<lceil>n - real i\<rceil>)") (auto, linarith)

declare pingLoop.simps [simp del]

text \<open>
  Lines 167--169 of the trigger (151--152 of the Ping node): the figures derived from the
  counters.
\<close>

definition isAlive :: "counters \<Rightarrow> bool" where
  "isAlive c = (successCount c > 0)"

definition avgTime :: "counters \<Rightarrow> real" where
  "avgTime c = (if successCount c > 0 then totalTime c / of_int (successCount c) else 0)"

definition packetLoss :: "real \<Rightarrow> counters \<Rightarrow> number" where
  "packetLoss n c =
     times_js (divide_js (n - of_int (successCount c)) n) 100"

text \<open>
  The counter update and the status of the cycle, written twice in the source with the
  same text: lines 171--182 of the Ping Trigger and 644--655 of the Server Check Trigger
  (where \<open>checkResult.reachable\<close> stands for \<open>isAlive\<close>).
\<close>

definition newConsecutiveFailures :: "int \<Rightarrow> bool \<Rightarrow> int" where
  "newConsecutiveFailures failures reachable =
     (if \<not> reachable then failures + 1 else 0)"

definition currentStatus :: "int \<Rightarrow> int \<Rightarrow> bool \<Rightarrow> bool" where
  "currentStatus failures threshold reachable =
     (let isOffline = (failures \<ge> threshold)
      in \<not> isOffline \<and> reachable)"

text \<open>The options of the triggers with their defaults (\<open>??\<close>), lines 132--140.\<close>

definition numberOfPings_trigger :: "parameters \<Rightarrow> real" where
  "numberOfPings_trigger p = (case numberOfPings (options p) of None \<Rightarrow> 3 | Some n \<Rightarrow> n)"

definition failureThreshold_of :: "parameters \<Rightarrow> int" where
  "failureThreshold_of p = (case failureThreshold (options p) of None \<Rightarrow> 2 | Some k \<Rightarrow> k)"

definition timeout_of :: "parameters \<Rightarrow> real" where
  "timeout_of p = (case timeout (options p) of None \<Rightarrow> 10 | Some t \<Rightarrow> t)"

text \<open>\<open>(workflowStaticData.consecutiveFailures as number) || 0\<close>\<close>

definition consecutiveFailures_or_0 :: "workflowStaticData \<Rightarrow> int" where
  "consecutiveFailures_or_0 staticData =
     (case consecutiveFailures staticData of None \<Rightarrow> 0 | Some n \<Rightarrow> n)"

text \<open>Lines 143--165: the probes of one cycle.\<close>

definition pings :: "parameters \<Rightarrow> world \<Rightarrow> counters \<times> string \<times> string \<times> nat" where
  "pings p w = pingLoop w (numberOfPings_trigger p) 0 (counters0, [], [], 0)"

text \<open>
  A primed argument below is the local variable of that name in the source, where the
  plain name is already a function of this theory.
\<close>

text \<open>Lines 184--209: the output data of the cycle.\<close>

definition outputData_ping ::
  "parameters \<Rightarrow> world \<Rightarrow> counters \<Rightarrow> string \<Rightarrow> string \<Rightarrow> int \<Rightarrow> bool \<Rightarrow> IDataObject" where
  "outputData_ping p w c lastOutput numericHost newConsecutiveFailures' currentStatus' =
     (let host = host p;
          numberOfPings = numberOfPings_trigger p;
          includeRawOutput = (case includeRawOutput (options p) of None \<Rightarrow> False | Some b \<Rightarrow> b);
          failureThreshold = failureThreshold_of p;
          isAlive = isAlive c;
          avgTime = avgTime c;
          packetLoss = packetLoss numberOfPings c;
          details =
            [(''numericHost'', JString (Lit numericHost)),
             (''pingsAttempted'', JNumber (Num numberOfPings)),
             (''pingsSuccessful'', JInt (successCount c)),
             (''pingsFailed'', JNumber (Num (numberOfPings - of_int (successCount c)))),
             (''minTime'', JString (if minTime c \<noteq> Infinity then FixedMs (minTime c) else Lit ''N/A'')),
             (''maxTime'', JString (if maxTime c > 0 then FixedMs (Num (maxTime c)) else Lit ''N/A'')),
             (''consecutiveFailures'', JInt newConsecutiveFailures'),
             (''failureThreshold'', JInt failureThreshold)]
      in [(''host'', JString (Lit host)),
          (''alive'', JBool isAlive),
          (''status'', online_offline currentStatus'),
          (''responseTime'', JString (if avgTime > 0 then FixedMs (Num avgTime) else Lit ''N/A'')),
          (''responseTimeMs'', JNumber (Num avgTime)),
          (''packetLoss'', JString (FixedPercent packetLoss)),
          (''packetLossPercent'', JNumber packetLoss),
          (''timestamp'', JString (Lit (now w))),
          (''triggerReason'', JString (Lit [])),
          (''details'', JObject
             (if includeRawOutput then assign ''rawOutput'' (JString (Lit lastOutput)) details
              else details))])"

text \<open>
  Lines 211--258: \<open>switch (triggerMode)\<close>, which has no \<open>default\<close>. The result is
  \<open>shouldTrigger\<close> and the output data with the reason written into it.
\<close>

definition trigger_ping ::
  "parameters \<Rightarrow> bool option \<Rightarrow> bool \<Rightarrow> bool \<Rightarrow> real \<Rightarrow> IDataObject \<Rightarrow> bool \<times> IDataObject" where
  "trigger_ping p previousStatus' currentStatus' isAlive' avgTime' outputData =
     (let triggerMode = triggerMode p in
      if triggerMode = ''statusChange'' then
        (let (shouldTrigger, outputData) =
               (case previousStatus' of
                  Some previous \<Rightarrow>
                    if previous \<noteq> currentStatus' then
                      (True,
                       assign ''newStatus'' (online_offline currentStatus')
                         (assign ''previousStatus'' (online_offline previous)
                            (assign ''triggerReason''
                               (JString (Lit (if currentStatus' then ''Host came online''
                                              else ''Host went offline'')))
                               outputData)))
                    else (False, outputData)
                | None \<Rightarrow> (False, outputData))
         in if previousStatus' = None
            then (True, assign ''triggerReason'' (JString (Lit ''Initial status check'')) outputData)
            else (shouldTrigger, outputData))
      else if triggerMode = ''everyPoll'' then
        (True, assign ''triggerReason'' (JString (Lit ''Scheduled poll'')) outputData)
      else if triggerMode = ''onlyOffline'' then
        (if \<not> currentStatus'
         then (True, assign ''triggerReason'' (JString (Lit ''Host is offline'')) outputData)
         else (False, outputData))
      else if triggerMode = ''onlyOnline'' then
        (if currentStatus'
         then (True, assign ''triggerReason'' (JString (Lit ''Host is online'')) outputData)
         else (False, outputData))
      else if triggerMode = ''highLatency'' then
        (let latencyThreshold = latencyThreshold p
         in if isAlive' \<and> avgTime' > latencyThreshold
            then (True,
                  assign ''latencyThreshold'' (JNumber (Num latencyThreshold))
                    (assign ''triggerReason''
                       (JString (HighLatencyFixed avgTime' latencyThreshold)) outputData))
            else (False, outputData))
      else (False, outputData))"

text \<open>
  \<open>PingTrigger.poll\<close>. The result is the static data as the cycle leaves it, and the
  item the node emits (\<open>None\<close> is \<open>return null\<close>).
\<close>

definition poll :: "parameters \<Rightarrow> world \<Rightarrow> workflowStaticData \<Rightarrow> workflowStaticData \<times> IDataObject option" where
  "poll p w staticData =
     (let previousStatus = previousStatus staticData;
          consecutiveFailures = consecutiveFailures_or_0 staticData;
          failureThreshold = failureThreshold_of p;
          (c, lastOutput, numericHost, sent) = pings p w;
          isAlive = isAlive c;
          avgTime = avgTime c;
          newConsecutiveFailures = newConsecutiveFailures consecutiveFailures isAlive;
          currentStatus = currentStatus newConsecutiveFailures failureThreshold isAlive;
          outputData =
            outputData_ping p w c lastOutput numericHost newConsecutiveFailures currentStatus;
          (shouldTrigger, outputData) =
            trigger_ping p previousStatus currentStatus isAlive avgTime outputData
      in (\<lparr> previousStatus = Some currentStatus,
            consecutiveFailures = Some newConsecutiveFailures \<rparr>,
          if shouldTrigger then Some outputData else None))"

section \<open>Server Check Trigger\<close>

record CheckResult =
  reachable :: bool
  responseTimeMs :: real
  error :: "string option"
  statusCode :: "int option"
  resolvedIp :: "string option"

text \<open>
  The three checks of the trigger. Each sends one request and resolves with the event the
  request ends with. \<open>new URL(url)\<close>, \<open>http.request\<close>, \<open>socket.setTimeout\<close> and
  \<open>socket.connect\<close> run inside the promise's executor, in this order of the source, so
  an argument one of them refuses rejects the promise before anything is sent. The timer
  of the DNS check takes any duration.
\<close>

definition executeHttpCheck_trigger ::
  "world \<Rightarrow> string \<Rightarrow> string \<Rightarrow> real \<Rightarrow> nat \<Rightarrow> (error + CheckResult) \<times> nat" where
  "executeHttpCheck_trigger w url' method timeout' sent =
     (if \<not> validUrl w url' then (Inl (TypeError ''Invalid URL''), sent)
      else if timeout' < 0 then (Inl (RangeError (OutOfRange ''timeout'' timeout')), sent)
      else
        (Inr (case httpReply w sent of
                HttpResponse code msg responseTime \<Rightarrow>
                  \<lparr> reachable = True, responseTimeMs = responseTime, error = None,
                    statusCode = code, resolvedIp = None \<rparr>
              | HttpTimeout \<Rightarrow>
                  \<lparr> reachable = False, responseTimeMs = timeout',
                    error = Some ''Connection timeout'', statusCode = None, resolvedIp = None \<rparr>
              | HttpError msg responseTime \<Rightarrow>
                  \<lparr> reachable = False, responseTimeMs = responseTime, error = Some msg,
                    statusCode = None, resolvedIp = None \<rparr>),
         Suc sent))"

definition executeTcpCheck_trigger ::
  "world \<Rightarrow> string \<Rightarrow> int \<Rightarrow> real \<Rightarrow> nat \<Rightarrow> (error + CheckResult) \<times> nat" where
  "executeTcpCheck_trigger w host' port' timeout' sent =
     (if timeout' < 0 then (Inl (RangeError (OutOfRange ''msecs'' timeout')), sent)
      else if \<not> validPort port' then (Inl (RangeError (BadPort port')), sent)
      else
        (Inr (case tcpReply w sent of
                TcpConnect responseTime \<Rightarrow>
                  \<lparr> reachable = True, responseTimeMs = responseTime, error = None,
                    statusCode = None, resolvedIp = None \<rparr>
              | TcpTimeout responseTime \<Rightarrow>
                  \<lparr> reachable = False, responseTimeMs = responseTime,
                    error = Some ''Connection timeout'', statusCode = None, resolvedIp = None \<rparr>
              | TcpError msg responseTime \<Rightarrow>
                  \<lparr> reachable = False, responseTimeMs = responseTime, error = Some msg,
                    statusCode = None, resolvedIp = None \<rparr>),
         Suc sent))"

definition executeDnsCheck_trigger ::
  "world \<Rightarrow> string \<Rightarrow> real \<Rightarrow> nat \<Rightarrow> (error + CheckResult) \<times> nat" where
  "executeDnsCheck_trigger w domain' timeout' sent =
     (Inr (case dnsReply w sent of
             DnsTimer \<Rightarrow>
               \<lparr> reachable = False, responseTimeMs = timeout',
                 error = Some ''DNS lookup timeout'', statusCode = None, resolvedIp = None \<rparr>
           | DnsError msg responseTime \<Rightarrow>
               \<lparr> reachable = False, responseTimeMs = responseTime, error = Some msg,
                 statusCode = None, resolvedIp = None \<rparr>
           | DnsAddress address family responseTime \<Rightarrow>
               \<lparr> reachable = True, responseTimeMs = responseTime, error = None,
                 statusCode = None, resolvedIp = Some address \<rparr>),
      Suc sent)"

text \<open>
  \<open>switch (checkType)\<close> of the trigger's \<open>poll\<close>, lines 619--642: the target and the
  check's result; \<open>None\<close> is the \<open>default: return null\<close>.
\<close>

definition check_trigger ::
  "parameters \<Rightarrow> world \<Rightarrow> real \<Rightarrow> nat \<Rightarrow> (str \<times> ((error + CheckResult) \<times> nat)) option" where
  "check_trigger p w timeout' sent =
     (let checkType = checkType p in
      if checkType = ''http'' then
        (let url = url p; method = httpMethod p
         in Some (Lit url, executeHttpCheck_trigger w url method timeout' sent))
      else if checkType = ''tcp'' then
        (let host = host p; port = port p
         in Some (HostPort host port, executeTcpCheck_trigger w host port timeout' sent))
      else if checkType = ''dns'' then
        (let domain = domain p
         in Some (Lit domain, executeDnsCheck_trigger w domain timeout' sent))
      else None)"

text \<open>Lines 657--681: the output data of the cycle.\<close>

definition outputData_server ::
  "parameters \<Rightarrow> world \<Rightarrow> str \<Rightarrow> CheckResult \<Rightarrow> int \<Rightarrow> bool \<Rightarrow> IDataObject" where
  "outputData_server p w target checkResult newConsecutiveFailures' currentStatus' =
     (let checkType = checkType p;
          failureThreshold = failureThreshold_of p;
          outputData =
            [(''checkType'', JString (Lit checkType)),
             (''target'', JString target),
             (''reachable'', JBool (reachable checkResult)),
             (''status'', online_offline currentStatus'),
             (''responseTimeMs'', JNumber (Num (responseTimeMs checkResult))),
             (''responseTime'', JString (Millis (responseTimeMs checkResult))),
             (''timestamp'', JString (Lit (now w))),
             (''triggerReason'', JString (Lit [])),
             (''details'', JObject
                [(''consecutiveFailures'', JInt newConsecutiveFailures'),
                 (''failureThreshold'', JInt failureThreshold)])];
          outputData =
            (case error checkResult of
               Some msg \<Rightarrow> if msg \<noteq> [] then assign ''error'' (JString (Lit msg)) outputData
                           else outputData
             | None \<Rightarrow> outputData);
          outputData =
            (case statusCode checkResult of
               Some code \<Rightarrow> if code \<noteq> 0 then assign ''statusCode'' (JInt code) outputData
                            else outputData
             | None \<Rightarrow> outputData);
          outputData =
            (case resolvedIp checkResult of
               Some ip \<Rightarrow> if ip \<noteq> [] then assign ''resolvedIp'' (JString (Lit ip)) outputData
                          else outputData
             | None \<Rightarrow> outputData)
      in outputData)"

text \<open>Lines 683--729: \<open>switch (triggerMode)\<close>, which has no \<open>default\<close>.\<close>

definition trigger_server ::
  "parameters \<Rightarrow> bool option \<Rightarrow> bool \<Rightarrow> CheckResult \<Rightarrow> IDataObject \<Rightarrow> bool \<times> IDataObject" where
  "trigger_server p previousStatus' currentStatus' checkResult outputData =
     (let triggerMode = triggerMode p in
      if triggerMode = ''statusChange'' then
        (let (shouldTrigger, outputData) =
               (case previousStatus' of
                  Some previous \<Rightarrow>
                    if previous \<noteq> currentStatus' then
                      (True,
                       assign ''newStatus'' (online_offline currentStatus')
                         (assign ''previousStatus'' (online_offline previous)
                            (assign ''triggerReason''
                               (JString (Lit (if currentStatus' then ''Server came online''
                                              else ''Server went offline'')))
                               outputData)))
                    else (False, outputData)
                | None \<Rightarrow> (False, outputData))
         in if previousStatus' = None
            then (True, assign ''triggerReason'' (JString (Lit ''Initial status check'')) outputData)
            else (shouldTrigger, outputData))
      else if triggerMode = ''everyPoll'' then
        (True, assign ''triggerReason'' (JString (Lit ''Scheduled poll'')) outputData)
      else if triggerMode = ''onlyOffline'' then
        (if \<not> currentStatus'
         then (True, assign ''triggerReason'' (JString (Lit ''Server is offline'')) outputData)
         else (False, outputData))
      else if triggerMode = ''onlyOnline'' then
        (if currentStatus'
         then (True, assign ''triggerReason'' (JString (Lit ''Server is online'')) outputData)
         else (False, outputData))
      else if triggerMode = ''highLatency'' then
        (let latencyThreshold = latencyThreshold p
         in if reachable checkResult \<and> responseTimeMs checkResult > latencyThreshold
            then (True,
                  assign ''latencyThreshold'' (JNumber (Num latencyThreshold))
                    (assign ''triggerReason''
                       (JString (HighLatency (responseTimeMs checkResult) latencyThreshold))
                       outputData))
            else (False, outputData))
      else (False, outputData))"

text \<open>
  \<open>PingTrigger.poll\<close> of the Server Check Trigger. \<open>Inl\<close> is the promise rejected;
  otherwise the static data as the cycle leaves it and the item emitted, if any.
\<close>

definition poll_server ::
  "parameters \<Rightarrow> world \<Rightarrow> workflowStaticData \<Rightarrow> error + workflowStaticData \<times> IDataObject option" where
  "poll_server p w staticData =
     (let timeout = timeout_of p * 1000;
          failureThreshold = failureThreshold_of p;
          previousStatus = previousStatus staticData;
          consecutiveFailures = consecutiveFailures_or_0 staticData
      in case check_trigger p w timeout 0 of
           None \<Rightarrow> Inr (staticData, None)
         | Some (target, Inl e, sent) \<Rightarrow> Inl e
         | Some (target, Inr checkResult, sent) \<Rightarrow>
             (let newConsecutiveFailures =
                    newConsecutiveFailures consecutiveFailures (reachable checkResult);
                  currentStatus =
                    currentStatus newConsecutiveFailures failureThreshold (reachable checkResult);
                  outputData =
                    outputData_server p w target checkResult newConsecutiveFailures currentStatus;
                  (shouldTrigger, outputData) =
                    trigger_server p previousStatus currentStatus checkResult outputData
              in Inr (\<lparr> previousStatus = Some currentStatus,
                        consecutiveFailures = Some newConsecutiveFailures \<rparr>,
                      if shouldTrigger then Some outputData else None)))"

section \<open>Ping node\<close>

definition numberOfPings_node :: "parameters \<Rightarrow> real" where
  "numberOfPings_node p = (case numberOfPings (options p) of None \<Rightarrow> 1 | Some n \<Rightarrow> n)"

text \<open>
  \<open>for (let p = 0; p < numberOfPings; p++)\<close> of \<open>Ping.execute\<close>: the state is
  \<open>pingResults\<close>, the counters and the number of probes sent.
\<close>

function pingLoop_node ::
  "world \<Rightarrow> real \<Rightarrow> nat \<Rightarrow> PingResponse list \<times> counters \<times> nat \<Rightarrow> PingResponse list \<times> counters \<times> nat" where
  "pingLoop_node w n i (pingResults, c, sent) =
     (if real i < n then
        (let result = pingReply w sent in
         pingLoop_node w n (Suc i) (pingResults @ [result], count result c, Suc sent))
      else (pingResults, c, sent))"
  by pat_completeness auto
termination
  by (relation "measure (\<lambda>(w, n, i, s). nat \<lceil>n - real i\<rceil>)") (auto, linarith)

declare pingLoop_node.simps [simp del]

definition json_of_time :: "ping_time \<Rightarrow> json" where
  "json_of_time t = (case t of Time x \<Rightarrow> JNumber (Num x) | Unknown \<Rightarrow> JString (Lit ''unknown''))"

text \<open>Lines 128--148: the probes for one input item.\<close>

definition pings_node :: "parameters \<Rightarrow> world \<Rightarrow> nat \<Rightarrow> PingResponse list \<times> counters \<times> nat" where
  "pings_node p w sent = pingLoop_node w (numberOfPings_node p) 0 ([], counters0, sent)"

text \<open>Lines 151--174: the output data for one input item.\<close>

definition outputData_node :: "parameters \<Rightarrow> world \<Rightarrow> PingResponse \<Rightarrow> counters \<Rightarrow> IDataObject" where
  "outputData_node p w lastResult c =
     (let host = host p;
          numberOfPings = numberOfPings_node p;
          includeDetails = (case includeDetails (options p) of None \<Rightarrow> True | Some b \<Rightarrow> b);
          avgTime = avgTime c;
          packetLoss = packetLoss numberOfPings c;
          outputData =
            [(''host'', JString (Lit host)),
             (''alive'', JBool (alive lastResult)),
             (''status'', JString (Lit (if alive lastResult then ''reachable'' else ''unreachable''))),
             (''responseTime'', json_of_time (time lastResult)),
             (''packetLoss'', JString (FixedPercent packetLoss)),
             (''timestamp'', JString (Lit (now w)))]
      in if includeDetails then
           assign ''details'' (JObject
             [(''numericHost'', JString (Lit (numeric_host lastResult))),
              (''pingsAttempted'', JNumber (Num numberOfPings)),
              (''pingsSuccessful'', JInt (successCount c)),
              (''pingsFailed'', JNumber (Num (numberOfPings - of_int (successCount c)))),
              (''averageTime'', JString (if avgTime > 0 then FixedMs (Num avgTime) else Lit ''N/A'')),
              (''minTime'', JString (if minTime c \<noteq> Infinity then FixedMs (minTime c) else Lit ''N/A'')),
              (''maxTime'', JString (if maxTime c > 0 then FixedMs (Num (maxTime c)) else Lit ''N/A'')),
              (''output'', JString (Lit (output' lastResult)))])
             outputData
         else outputData)"

text \<open>
  The body of the \<open>try\<close> block of \<open>Ping.execute\<close> for one input item, whose parameters
  are \<open>p\<close>. With no probe sent \<open>pingResults\<close> is empty, \<open>lastResult\<close> is \<open>undefined\<close>
  and reading \<open>lastResult.alive\<close> throws.
\<close>

definition ping_item :: "parameters \<Rightarrow> world \<Rightarrow> nat \<Rightarrow> (error + IDataObject) \<times> nat" where
  "ping_item p w sent0 =
     (let host = host p
      in if host = [] then (Inl (NodeOperationError ''Host is required''), sent0)
         else
           (let (pingResults, c, sent) = pings_node p w sent0
            in if pingResults = []
               then (Inl (TypeError ''Cannot read properties of undefined (reading 'alive')''), sent)
               else (Inr (outputData_node p w (last pingResults) c), sent)))"

text \<open>
  \<open>Ping.execute\<close>: the loop over the input items with its \<open>catch\<close>. Every element of
  \<open>returnData\<close> is the item's JSON with the index of the item it is paired with.
\<close>

fun execute_loop ::
  "bool \<Rightarrow> world \<Rightarrow> parameters list \<Rightarrow> nat \<Rightarrow> nat \<Rightarrow> (IDataObject \<times> nat) list
    \<Rightarrow> error + (IDataObject \<times> nat) list" where
  "execute_loop continueOnFail w [] i sent returnData = Inr returnData"
| "execute_loop continueOnFail w (p # items) i sent returnData =
     (case ping_item p w sent of
        (Inr outputData, sent') \<Rightarrow>
          execute_loop continueOnFail w items (Suc i) sent' (returnData @ [(outputData, i)])
      | (Inl e, sent') \<Rightarrow>
          if continueOnFail then
            execute_loop continueOnFail w items (Suc i) sent'
              (returnData @
                 [([(''host'', JString (Lit (host p))),
                    (''alive'', JBool False),
                    (''status'', JString (Lit ''error'')),
                    (''error'', JString (message e)),
                    (''timestamp'', JString (Lit (now w)))], i)])
          else Inl e)"

definition execute :: "bool \<Rightarrow> world \<Rightarrow> parameters list \<Rightarrow> error + (IDataObject \<times> nat) list" where
  "execute continueOnFail w items = execute_loop continueOnFail w items 0 0 []"

section \<open>Server Check node\<close>

text \<open>
  The three checks of the node read their parameters themselves and throw when the target
  is empty (\<open>!url\<close>, \<open>!host\<close>, \<open>!domain\<close>); each sends one request, unless the
  platform refuses an argument as it does in the trigger.
\<close>

definition executeHttpCheck :: "parameters \<Rightarrow> world \<Rightarrow> real \<Rightarrow> nat \<Rightarrow> (error + IDataObject) \<times> nat" where
  "executeHttpCheck p w timeout' sent =
     (let url = url p;
          method = httpMethod p;
          acceptAnyStatus = acceptAnyStatus p
      in if url = [] then (Inl (NodeOperationError ''URL is required''), sent)
         else if \<not> validUrl w url then (Inl (TypeError ''Invalid URL''), sent)
         else if timeout' < 0 then (Inl (RangeError (OutOfRange ''timeout'' timeout')), sent)
         else
           (Inr (case httpReply w sent of
                   HttpResponse code statusMessage responseTime \<Rightarrow>
                     (let statusCode = (case code of None \<Rightarrow> 0 | Some n \<Rightarrow> n);
                          isReachable = (if acceptAnyStatus then True
                                         else statusCode \<ge> 200 \<and> statusCode < 400)
                      in [(''checkType'', JString (Lit ''http'')),
                          (''url'', JString (Lit url)),
                          (''method'', JString (Lit method)),
                          (''reachable'', JBool isReachable),
                          (''status'', online_offline isReachable),
                          (''statusCode'', JInt statusCode),
                          (''statusMessage'', JString (Lit statusMessage)),
                          (''responseTimeMs'', JNumber (Num responseTime)),
                          (''responseTime'', JString (Millis responseTime)),
                          (''timestamp'', JString (Lit (now w)))])
                 | HttpTimeout \<Rightarrow>
                     [(''checkType'', JString (Lit ''http'')),
                      (''url'', JString (Lit url)),
                      (''method'', JString (Lit method)),
                      (''reachable'', JBool False),
                      (''status'', JString (Lit ''offline'')),
                      (''error'', JString (Lit ''Connection timeout'')),
                      (''responseTimeMs'', JNumber (Num timeout')),
                      (''responseTime'', JString (MillisTimeout timeout')),
                      (''timestamp'', JString (Lit (now w)))]
                 | HttpError msg responseTime \<Rightarrow>
                     [(''checkType'', JString (Lit ''http'')),
                      (''url'', JString (Lit url)),
                      (''method'', JString (Lit method)),
                      (''reachable'', JBool False),
                      (''status'', JString (Lit ''offline'')),
                      (''error'', JString (Lit msg)),
                      (''responseTimeMs'', JNumber (Num responseTime)),
                      (''responseTime'', JString (Millis responseTime)),
                      (''timestamp'', JString (Lit (now w)))]),
            Suc sent))"

definition executeTcpCheck :: "parameters \<Rightarrow> world \<Rightarrow> real \<Rightarrow> nat \<Rightarrow> (error + IDataObject) \<times> nat" where
  "executeTcpCheck p w timeout' sent =
     (let host = host p;
          port = port p
      in if host = [] then (Inl (NodeOperationError ''Host is required''), sent)
         else if timeout' < 0 then (Inl (RangeError (OutOfRange ''msecs'' timeout')), sent)
         else if \<not> validPort port then (Inl (RangeError (BadPort port)), sent)
         else
           (Inr (case tcpReply w sent of
                   TcpConnect responseTime \<Rightarrow>
                     [(''checkType'', JString (Lit ''tcp'')),
                      (''host'', JString (Lit host)),
                      (''port'', JInt port),
                      (''reachable'', JBool True),
                      (''status'', JString (Lit ''online'')),
                      (''responseTimeMs'', JNumber (Num responseTime)),
                      (''responseTime'', JString (Millis responseTime)),
                      (''timestamp'', JString (Lit (now w)))]
                 | TcpTimeout responseTime \<Rightarrow>
                     [(''checkType'', JString (Lit ''tcp'')),
                      (''host'', JString (Lit host)),
                      (''port'', JInt port),
                      (''reachable'', JBool False),
                      (''status'', JString (Lit ''offline'')),
                      (''error'', JString (Lit ''Connection timeout'')),
                      (''responseTimeMs'', JNumber (Num responseTime)),
                      (''responseTime'', JString (MillisTimeout responseTime)),
                      (''timestamp'', JString (Lit (now w)))]
                 | TcpError msg responseTime \<Rightarrow>
                     [(''checkType'', JString (Lit ''tcp'')),
                      (''host'', JString (Lit host)),
                      (''port'', JInt port),
                      (''reachable'', JBool False),
                      (''status'', JString (Lit ''offline'')),
                      (''error'', JString (Lit msg)),
                      (''responseTimeMs'', JNumber (Num responseTime)),
                      (''responseTime'', JString (Millis responseTime)),
                      (''timestamp'', JString (Lit (now w)))]),
            Suc sent))"

definition executeDnsCheck :: "parameters \<Rightarrow> world \<Rightarrow> real \<Rightarrow> nat \<Rightarrow> (error + IDataObject) \<times> nat" where
  "executeDnsCheck p w timeout' sent =
     (let domain = domain p
      in if domain = [] then (Inl (NodeOperationError ''Domain is required''), sent)
         else
           (Inr (case dnsReply w sent of
                   DnsTimer \<Rightarrow>
                     [(''checkType'', JString (Lit ''dns'')),
                      (''domain'', JString (Lit domain)),
                      (''reachable'', JBool False),
                      (''status'', JString (Lit ''offline'')),
                      (''error'', JString (Lit ''DNS lookup timeout'')),
                      (''responseTimeMs'', JNumber (Num timeout')),
                      (''responseTime'', JString (MillisTimeout timeout')),
                      (''timestamp'', JString (Lit (now w)))]
                 | DnsError msg responseTime \<Rightarrow>
                     [(''checkType'', JString (Lit ''dns'')),
                      (''domain'', JString (Lit domain)),
                      (''reachable'', JBool False),
                      (''status'', JString (Lit ''offline'')),
                      (''error'', JString (Lit msg)),
                      (''responseTimeMs'', JNumber (Num responseTime)),
                      (''responseTime'', JString (Millis responseTime)),
                      (''timestamp'', JString (Lit (now w)))]
                 | DnsAddress address family responseTime \<Rightarrow>
                     [(''checkType'', JString (Lit ''dns'')),
                      (''domain'', JString (Lit domain)),
                      (''reachable'', JBool True),
                      (''status'', JString (Lit ''online'')),
                      (''resolvedIp'', JString (Lit address)),
                      (''ipFamily'', JString (IPv family)),
                      (''responseTimeMs'', JNumber (Num responseTime)),
                      (''responseTime'', JString (Millis responseTime)),
                      (''timestamp'', JString (Lit (now w)))]),
            Suc sent))"

text \<open>
  The body of the \<open>try\<close> block of the Server Check node's \<open>execute\<close> for one input
  item: the \<open>switch (checkType)\<close>, whose \<open>default\<close> throws.
\<close>

definition check_item :: "parameters \<Rightarrow> world \<Rightarrow> nat \<Rightarrow> (error + IDataObject) \<times> nat" where
  "check_item p w sent =
     (let checkType = checkType p;
          timeout = timeout_of p * 1000
      in if checkType = ''http'' then executeHttpCheck p w timeout sent
         else if checkType = ''tcp'' then executeTcpCheck p w timeout sent
         else if checkType = ''dns'' then executeDnsCheck p w timeout sent
         else (Inl (NodeOperationError (''Unknown check type: '' @ checkType)), sent))"

text \<open>The loop over the input items with its \<open>catch\<close>.\<close>

fun execute_server_loop ::
  "bool \<Rightarrow> world \<Rightarrow> parameters list \<Rightarrow> nat \<Rightarrow> nat \<Rightarrow> (IDataObject \<times> nat) list
    \<Rightarrow> error + (IDataObject \<times> nat) list" where
  "execute_server_loop continueOnFail w [] i sent returnData = Inr returnData"
| "execute_server_loop continueOnFail w (p # items) i sent returnData =
     (case check_item p w sent of
        (Inr result, sent') \<Rightarrow>
          execute_server_loop continueOnFail w items (Suc i) sent' (returnData @ [(result, i)])
      | (Inl e, sent') \<Rightarrow>
          if continueOnFail then
            execute_server_loop continueOnFail w items (Suc i) sent'
              (returnData @
                 [([(''reachable'', JBool False),
                    (''status'', JString (Lit ''error'')),
                    (''error'', JString (message e)),
                    (''timestamp'', JString (Lit (now w)))], i)])
          else Inl e)"

definition execute_server :: "bool \<Rightarrow> world \<Rightarrow> parameters list \<Rightarrow> error + (IDataObject \<times> nat) list" where
  "execute_server continueOnFail w items = execute_server_loop continueOnFail w items 0 0 []"

section \<open>Successive poll cycles\<close>

text \<open>
  The host engine calls \<open>poll\<close> once per cycle and keeps the static data between the
  calls; every cycle has its parameters and meets its own world. A cycle of the Server
  Check Trigger that is rejected has written nothing.
\<close>

definition fresh :: workflowStaticData where
  "fresh = \<lparr> previousStatus = None, consecutiveFailures = None \<rparr>"



section \<open>Reading the output\<close>

text \<open>Whether \<open>Infinity\<close> shows anywhere in a JSON value, as a number or printed in a string.\<close>

definition is_infinity :: "number \<Rightarrow> bool" where
  "is_infinity x = (x = Infinity \<or> x = NegInfinity)"

fun shows_infinity :: "json \<Rightarrow> bool" where
  "shows_infinity (JNumber x) = is_infinity x"
| "shows_infinity (JString (FixedMs x)) = is_infinity x"
| "shows_infinity (JString (FixedPercent x)) = is_infinity x"
| "shows_infinity (JString s) = False"
| "shows_infinity (JInt n) = False"
| "shows_infinity (JBool b) = False"
| "shows_infinity (JObject kvs) = list_ex (\<lambda>kv. shows_infinity (snd kv)) kvs"

section \<open>Declared defaults and two example worlds\<close>

text \<open>
  The defaults the descriptions declare for the Ping Trigger (lines 26--119) and for the
  Server Check node and trigger (\<open>acceptAnyStatus\<close> has \<open>default: true\<close>); the targets
  are examples, their declared default being the empty string.
\<close>

definition no_options :: options where
  "no_options = \<lparr> timeout = None, numberOfPings = None, failureThreshold = None,
                  includeRawOutput = None, includeDetails = None \<rparr>"

definition defaults :: parameters where
  "defaults =
     \<lparr> host = ''example.com'', checkType = ''http'', url = ''https://example.com'',
       httpMethod = ''GET'', acceptAnyStatus = True, port = 443, domain = ''example.com'',
       triggerMode = ''statusChange'', latencyThreshold = 100, options = no_options \<rparr>"

text \<open>A world in which every request is answered, and one in which none is.\<close>

definition world_up :: world where
  "world_up =
     \<lparr> pingReply = (\<lambda>k. \<lparr> alive = True, time = Time 20, output' = ''1 packets received'',
                          numeric_host = ''93.184.216.34'' \<rparr>),
       httpReply = (\<lambda>k. HttpResponse (Some 200) ''OK'' 145),
       tcpReply = (\<lambda>k. TcpConnect 23),
       dnsReply = (\<lambda>k. DnsAddress ''93.184.216.34'' 4 12),
       validUrl = (\<lambda>u. u \<noteq> []),
       now = ''2024-01-15T10:30:00.000Z'' \<rparr>"

definition world_down :: world where
  "world_down =
     \<lparr> pingReply = (\<lambda>k. \<lparr> alive = False, time = Unknown, output' = ''0 packets received'',
                          numeric_host = ''93.184.216.34'' \<rparr>),
       httpReply = (\<lambda>k. HttpTimeout),
       tcpReply = (\<lambda>k. TcpTimeout 10000),
       dnsReply = (\<lambda>k. DnsTimer),
       validUrl = (\<lambda>u. u \<noteq> []),
       now = ''2024-01-15T10:31:00.000Z'' \<rparr>"

text \<open>A world in which every second probe is answered, the first one not.\<close>

definition world_flaky :: world where
  "world_flaky =
     \<lparr> pingReply = (\<lambda>k. if odd k
                          then \<lparr> alive = True, time = Time 20, output' = ''1 packets received'',
                                 numeric_host = ''93.184.216.34'' \<rparr>
                          else \<lparr> alive = False, time = Unknown, output' = ''0 packets received'',
                                 numeric_host = ''93.184.216.34'' \<rparr>),
       httpReply = (\<lambda>k. if odd k then HttpResponse (Some 503) ''Service Unavailable'' 80 else HttpTimeout),
       tcpReply = (\<lambda>k. if odd k then TcpConnect 23 else TcpTimeout 10000),
       dnsReply = (\<lambda>k. if odd k then DnsAddress ''93.184.216.34'' 4 12 else DnsTimer),
       validUrl = (\<lambda>u. u \<noteq> []),
       now = ''2024-01-15T10:32:00.000Z'' \<rparr>"

section \<open>An invariant of the ping loops\<close>

text \<open>
  The success count is never negative, and while it is zero the minimum and the maximum
  still hold their start values.
\<close>

definition counted :: "counters \<Rightarrow> bool" where
  "counted c = (0 \<le> successCount c \<and> (successCount c = 0 \<longrightarrow> minTime c = Infinity \<and> maxTime c = 0))"

section \<open>Facts about the parts\<close>

lemma field_assign: "field (assign k v obj) k' = (if k' = k then Some v else field obj k')"
  by (induction obj) (auto simp: field_def)

lemma field_Cons: "field ((k, v) # obj) k' = (if k' = k then Some v else field obj k')"
  by (auto simp: field_def)

lemma field_Nil: "field [] k = None"
  by (simp add: field_def)

lemma counted_count: "counted c \<Longrightarrow> counted (count r c)"
  by (auto simp: counted_def count_def Let_def)

lemma count_successCount:
  "successCount c \<le> successCount (count r c) \<and> successCount (count r c) \<le> successCount c + 1"
  by (auto simp: count_def Let_def)

lemma pingLoop_counted: "counted (fst s) \<Longrightarrow> counted (fst (pingLoop w n i s))"
proof (induction w n i s rule: pingLoop.induct)
  case (1 w n i c lastOutput numericHost sent)
  show ?case
  proof (cases "real i < n")
    case True
    with 1 show ?thesis by (simp add: pingLoop.simps [of w n i] Let_def counted_count)
  next
    case False
    with 1 show ?thesis by (simp add: pingLoop.simps [of w n i])
  qed
qed

lemma pingLoop_successCount:
  "successCount (fst s) \<le> successCount (fst (pingLoop w n i s)) \<and>
   successCount (fst (pingLoop w n i s)) \<le> successCount (fst s) + max 0 \<lceil>n - real i\<rceil>"
proof (induction w n i s rule: pingLoop.induct)
  case (1 w n i c lastOutput numericHost sent)
  show ?case
  proof (cases "real i < n")
    case True
    have cs: "successCount c \<le> successCount (count (pingReply w sent) c) \<and>
      successCount (count (pingReply w sent) c) \<le> successCount c + 1"
      by (rule count_successCount)
    have step: "max 0 \<lceil>n - real (Suc i)\<rceil> + 1 = max 0 \<lceil>n - real i\<rceil>"
      using True by (simp add: max_def) linarith
    from True 1 [OF True refl] cs step show ?thesis
      by (simp add: pingLoop.simps [of w n i] Let_def)
  next
    case False
    then show ?thesis by (simp add: pingLoop.simps [of w n i])
  qed
qed

lemma currentStatus_reachable:
  "1 \<le> k \<Longrightarrow> currentStatus (newConsecutiveFailures f r) k r = r"
  by (simp add: currentStatus_def newConsecutiveFailures_def)

lemma trigger_ping_keeps:
  "k \<noteq> ''triggerReason'' \<Longrightarrow> k \<noteq> ''previousStatus'' \<Longrightarrow> k \<noteq> ''newStatus'' \<Longrightarrow>
   k \<noteq> ''latencyThreshold'' \<Longrightarrow>
   field (snd (trigger_ping p prev cur al av out)) k = field out k"
  by (simp add: trigger_ping_def Let_def field_assign split: option.splits)

lemma trigger_server_keeps:
  "k \<noteq> ''triggerReason'' \<Longrightarrow> k \<noteq> ''previousStatus'' \<Longrightarrow> k \<noteq> ''newStatus'' \<Longrightarrow>
   k \<noteq> ''latencyThreshold'' \<Longrightarrow>
   field (snd (trigger_server p prev cur r out)) k = field out k"
  by (simp add: trigger_server_def Let_def field_assign split: option.splits)

text \<open>A cycle of the Ping Trigger, with its parts named.\<close>

lemma poll_result:
  fixes p w sd
  defines "c \<equiv> fst (pings p w)"
  defines "f \<equiv> newConsecutiveFailures (consecutiveFailures_or_0 sd) (isAlive c)"
  defines "s \<equiv> currentStatus f (failureThreshold_of p) (isAlive c)"
  defines "t \<equiv> trigger_ping p (previousStatus sd) s (isAlive c) (avgTime c)
                  (outputData_ping p w c (fst (snd (pings p w))) (fst (snd (snd (pings p w)))) f s)"
  shows "poll p w sd =
     (\<lparr> previousStatus = Some s, consecutiveFailures = Some f \<rparr>,
      if fst t then Some (snd t) else None)"
  unfolding c_def f_def s_def t_def
  by (simp add: poll_def Let_def split: prod.splits)

lemma poll_state:
  "fst (poll p w sd) =
     \<lparr> previousStatus =
         Some (currentStatus
                 (newConsecutiveFailures (consecutiveFailures_or_0 sd) (isAlive (fst (pings p w))))
                 (failureThreshold_of p) (isAlive (fst (pings p w)))),
       consecutiveFailures =
         Some (newConsecutiveFailures (consecutiveFailures_or_0 sd) (isAlive (fst (pings p w)))) \<rparr>"
  by (simp add: poll_result)

lemma poll_emitted_field:
  assumes "snd (poll p w sd) = Some out"
    and "k \<noteq> ''triggerReason''" "k \<noteq> ''previousStatus''" "k \<noteq> ''newStatus''"
      "k \<noteq> ''latencyThreshold''"
  shows "field out k =
     field (outputData_ping p w (fst (pings p w)) (fst (snd (pings p w))) (fst (snd (snd (pings p w))))
        (newConsecutiveFailures (consecutiveFailures_or_0 sd) (isAlive (fst (pings p w))))
        (currentStatus (newConsecutiveFailures (consecutiveFailures_or_0 sd) (isAlive (fst (pings p w))))
           (failureThreshold_of p) (isAlive (fst (pings p w))))) k"
  using assms
  by (auto simp add: poll_result trigger_ping_keeps split: if_splits)

lemma outputData_ping_status:
  "field (outputData_ping p w c lo nh f s) ''status'' = Some (online_offline s)"
  by (simp add: outputData_ping_def Let_def field_Cons)

text \<open>A cycle of the Server Check Trigger whose check resolved.\<close>

lemma poll_server_result:
  fixes p w sd r target
  defines "f \<equiv> newConsecutiveFailures (consecutiveFailures_or_0 sd) (reachable r)"
  defines "s \<equiv> currentStatus f (failureThreshold_of p) (reachable r)"
  defines "t \<equiv> trigger_server p (previousStatus sd) s r (outputData_server p w target r f s)"
  assumes "check_trigger p w (timeout_of p * 1000) 0 = Some (target, Inr r, n)"
  shows "poll_server p w sd =
     Inr (\<lparr> previousStatus = Some s, consecutiveFailures = Some f \<rparr>,
          if fst t then Some (snd t) else None)"
  using assms(4) unfolding f_def s_def t_def
  by (simp add: poll_server_def Let_def split: prod.splits)

lemma outputData_server_status:
  "field (outputData_server p w t r f s) ''status'' = Some (online_offline s)"
  by (simp add: outputData_server_def Let_def field_Cons field_assign split: option.splits)

text \<open>The definitions a closed term is evaluated with.\<close>

lemmas eval_defs = poll_def poll_server_def pings_def check_trigger_def validPort_def
  executeHttpCheck_trigger_def executeTcpCheck_trigger_def executeDnsCheck_trigger_def
  outputData_ping_def outputData_server_def trigger_ping_def trigger_server_def
  defaults_def no_options_def world_up_def world_down_def fresh_def
  numberOfPings_trigger_def failureThreshold_of_def timeout_of_def consecutiveFailures_or_0_def
  pingLoop.simps counters0_def count_def parseFloat_or_0_def less_js_def
  isAlive_def avgTime_def packetLoss_def divide_js_def times_js_def
  newConsecutiveFailures_def currentStatus_def online_offline_def field_def Let_def

section \<open>The claims\<close>

text \<open>
  C3. For every failure threshold of at least 1, every persisted state and every outcome
  of the probes, the status a trigger's cycle computes is the raw reachability of that
  cycle: \<open>successCount > 0\<close> for the Ping Trigger, \<open>checkResult.reachable\<close> for the
  Server Check Trigger. It is the status the cycle persists as \<open>previousStatus\<close> and the
  one it writes into the \<open>status\<close> field of an emitted item; the threshold does not
  change it.
\<close>

theorem status_is_reachability:
  assumes "1 \<le> failureThreshold_of p"
  shows "previousStatus (fst (poll p w sd)) = Some (isAlive (fst (pings p w))) \<and>
         (\<forall>out. snd (poll p w sd) = Some out \<longrightarrow>
            field out ''status'' = Some (online_offline (isAlive (fst (pings p w))))) \<and>
         (\<forall>target r n. check_trigger p w (timeout_of p * 1000) 0 = Some (target, Inr r, n) \<longrightarrow>
            (\<exists>sd' emitted. poll_server p w sd = Inr (sd', emitted) \<and>
               previousStatus sd' = Some (reachable r) \<and>
               (\<forall>out. emitted = Some out \<longrightarrow>
                  field out ''status'' = Some (online_offline (reachable r)))))"
proof (intro conjI allI impI)
  show "previousStatus (fst (poll p w sd)) = Some (isAlive (fst (pings p w)))"
    using assms by (simp add: poll_state currentStatus_reachable)
next
  fix out assume "snd (poll p w sd) = Some out"
  then show "field out ''status'' = Some (online_offline (isAlive (fst (pings p w))))"
    using assms by (simp add: poll_emitted_field outputData_ping_status currentStatus_reachable)
next
  fix target r n
  assume c: "check_trigger p w (timeout_of p * 1000) 0 = Some (target, Inr r, n)"
  show "\<exists>sd' emitted. poll_server p w sd = Inr (sd', emitted) \<and>
               previousStatus sd' = Some (reachable r) \<and>
               (\<forall>out. emitted = Some out \<longrightarrow>
                  field out ''status'' = Some (online_offline (reachable r)))"
    using assms
    by (simp add: poll_server_result [OF c] currentStatus_reachable trigger_server_keeps
        outputData_server_status)
qed

theorem status_is_reachability_witness:
  "1 \<le> failureThreshold_of defaults \<and>
   isAlive (fst (pings defaults world_up)) \<and>
   previousStatus (fst (poll defaults world_up fresh)) = Some True \<and>
   snd (poll defaults world_up fresh) \<noteq> None \<and>
   field (the (snd (poll defaults world_up fresh))) ''status'' = Some (JString (Lit ''online'')) \<and>
   check_trigger defaults world_down (timeout_of defaults * 1000) 0 =
     Some (Lit ''https://example.com'',
           Inr \<lparr> reachable = False, responseTimeMs = 10000, error = Some ''Connection timeout'',
                 statusCode = None, resolvedIp = None \<rparr>, 1) \<and>
   poll_server defaults world_down fresh =
     Inr (\<lparr> previousStatus = Some False, consecutiveFailures = Some 1 \<rparr>,
          Some [(''checkType'', JString (Lit ''http'')),
                (''target'', JString (Lit ''https://example.com'')),
                (''reachable'', JBool False),
                (''status'', JString (Lit ''offline'')),
                (''responseTimeMs'', JNumber (Num 10000)),
                (''responseTime'', JString (Millis 10000)),
                (''timestamp'', JString (Lit ''2024-01-15T10:31:00.000Z'')),
                (''triggerReason'', JString (Lit ''Initial status check'')),
                (''details'', JObject [(''consecutiveFailures'', JInt 1), (''failureThreshold'', JInt 2)]),
                (''error'', JString (Lit ''Connection timeout''))])"
  using status_is_reachability [of defaults world_up fresh]
    status_is_reachability [of defaults world_down fresh]
  by (simp add: eval_defs)

subsection \<open>The counter over the cycles\<close>












text \<open>
  C2. With the failure threshold 2 the spec has the first failed cycle still online and the
  second one going offline. The code, run on a host that was online with the counter
  reset: the first failed cycle is already offline and emits \<open>Host went offline\<close>, the
  second emits nothing; the Server Check Trigger does the same.
\<close>

theorem first_failed_cycle_is_offline:
  "failureThreshold_of defaults = 2 \<and>
   poll defaults world_down \<lparr> previousStatus = Some True, consecutiveFailures = Some 0 \<rparr> =
     (\<lparr> previousStatus = Some False, consecutiveFailures = Some 1 \<rparr>,
      Some [(''host'', JString (Lit ''example.com'')),
            (''alive'', JBool False),
            (''status'', JString (Lit ''offline'')),
            (''responseTime'', JString (Lit ''N/A'')),
            (''responseTimeMs'', JNumber (Num 0)),
            (''packetLoss'', JString (FixedPercent (Num 100))),
            (''packetLossPercent'', JNumber (Num 100)),
            (''timestamp'', JString (Lit ''2024-01-15T10:31:00.000Z'')),
            (''triggerReason'', JString (Lit ''Host went offline'')),
            (''details'', JObject
               [(''numericHost'', JString (Lit ''93.184.216.34'')),
                (''pingsAttempted'', JNumber (Num 3)),
                (''pingsSuccessful'', JInt 0),
                (''pingsFailed'', JNumber (Num 3)),
                (''minTime'', JString (Lit ''N/A'')),
                (''maxTime'', JString (Lit ''N/A'')),
                (''consecutiveFailures'', JInt 1),
                (''failureThreshold'', JInt 2)]),
            (''previousStatus'', JString (Lit ''online'')),
            (''newStatus'', JString (Lit ''offline''))]) \<and>
   poll defaults world_down \<lparr> previousStatus = Some False, consecutiveFailures = Some 1 \<rparr> =
     (\<lparr> previousStatus = Some False, consecutiveFailures = Some 2 \<rparr>, None) \<and>
   poll_server defaults world_down \<lparr> previousStatus = Some True, consecutiveFailures = Some 0 \<rparr> =
     Inr (\<lparr> previousStatus = Some False, consecutiveFailures = Some 1 \<rparr>,
          Some [(''checkType'', JString (Lit ''http'')),
                (''target'', JString (Lit ''https://example.com'')),
                (''reachable'', JBool False),
                (''status'', JString (Lit ''offline'')),
                (''responseTimeMs'', JNumber (Num 10000)),
                (''responseTime'', JString (Millis 10000)),
                (''timestamp'', JString (Lit ''2024-01-15T10:31:00.000Z'')),
                (''triggerReason'', JString (Lit ''Server went offline'')),
                (''details'', JObject [(''consecutiveFailures'', JInt 1), (''failureThreshold'', JInt 2)]),
                (''error'', JString (Lit ''Connection timeout'')),
                (''previousStatus'', JString (Lit ''online'')),
                (''newStatus'', JString (Lit ''offline''))])"
  by (simp add: eval_defs)

subsection \<open>The trigger modes\<close>

lemma trigger_ping_statusChange:
  assumes "triggerMode p = ''statusChange''"
  shows "fst (trigger_ping p prev cur al av out) = (prev \<noteq> Some cur)"
    and "prev = None \<Longrightarrow> field (snd (trigger_ping p prev cur al av out)) ''triggerReason'' =
           Some (JString (Lit ''Initial status check''))"
    and "prev = Some (\<not> cur) \<Longrightarrow> field (snd (trigger_ping p prev cur al av out)) ''triggerReason'' =
           Some (JString (Lit (if cur then ''Host came online'' else ''Host went offline'')))"
  using assms
  by (auto simp add: trigger_ping_def Let_def field_assign split: option.splits)

lemma trigger_server_statusChange:
  assumes "triggerMode p = ''statusChange''"
  shows "fst (trigger_server p prev cur r out) = (prev \<noteq> Some cur)"
    and "prev = None \<Longrightarrow> field (snd (trigger_server p prev cur r out)) ''triggerReason'' =
           Some (JString (Lit ''Initial status check''))"
    and "prev = Some (\<not> cur) \<Longrightarrow> field (snd (trigger_server p prev cur r out)) ''triggerReason'' =
           Some (JString (Lit (if cur then ''Server came online'' else ''Server went offline'')))"
  using assms
  by (auto simp add: trigger_server_def Let_def field_assign split: option.splits)

lemma poll_server_statusChange_silent:
  assumes m: "triggerMode p = ''statusChange''"
    and r: "poll_server p w sd = Inr (sd', emitted)"
    and s: "previousStatus sd' = previousStatus sd"
  shows "emitted = None"
proof (cases "check_trigger p w (timeout_of p * 1000) 0")
  case None
  with r show ?thesis by (simp add: poll_server_def Let_def)
next
  case (Some x)
  obtain target res n where x: "x = (target, res, n)" by (cases x)
  show ?thesis
  proof (cases res)
    case (Inl e)
    with Some x r show ?thesis by (simp add: poll_server_def Let_def)
  next
    case (Inr c)
    with Some x have "check_trigger p w (timeout_of p * 1000) 0 = Some (target, Inr c, n)" by simp
    from poll_server_result [OF this, of sd] r s show ?thesis
      by (auto simp add: trigger_server_statusChange(1) [OF m] split: if_splits)
  qed
qed

lemma trigger_ping_highLatency:
  "triggerMode p = ''highLatency'' \<Longrightarrow>
   fst (trigger_ping p prev cur al av out) = (al \<and> av > latencyThreshold p)"
  by (simp add: trigger_ping_def Let_def)

lemma trigger_server_highLatency:
  "triggerMode p = ''highLatency'' \<Longrightarrow>
   fst (trigger_server p prev cur r out) = (reachable r \<and> responseTimeMs r > latencyThreshold p)"
  by (simp add: trigger_server_def Let_def)

text \<open>
  C5. In \<open>statusChange\<close> mode a cycle of either trigger, whose status is \<open>cur\<close>, emits an
  item with the reason \<open>Initial status check\<close> when no \<open>previousStatus\<close> is persisted,
  emits one with the reason \<open>came online\<close> or \<open>went offline\<close> when the persisted status
  differs from \<open>cur\<close>, and emits nothing when the persisted status is \<open>cur\<close>; whatever
  this cycle did, a next cycle with the same status emits nothing.
\<close>

theorem statusChange_fires_on_change:
  assumes "triggerMode p = ''statusChange''"
  shows
  "(\<exists>cur. previousStatus (fst (poll p w sd)) = Some cur \<and>
      (previousStatus sd = None \<longrightarrow>
         (\<exists>out. snd (poll p w sd) = Some out \<and>
            field out ''triggerReason'' = Some (JString (Lit ''Initial status check'')))) \<and>
      (previousStatus sd = Some (\<not> cur) \<longrightarrow>
         (\<exists>out. snd (poll p w sd) = Some out \<and>
            field out ''triggerReason'' =
              Some (JString (Lit (if cur then ''Host came online'' else ''Host went offline''))))) \<and>
      (previousStatus sd = Some cur \<longrightarrow> snd (poll p w sd) = None) \<and>
      (\<forall>w'. previousStatus (fst (poll p w' (fst (poll p w sd)))) = Some cur \<longrightarrow>
         snd (poll p w' (fst (poll p w sd))) = None)) \<and>
   (\<forall>target r n. check_trigger p w (timeout_of p * 1000) 0 = Some (target, Inr r, n) \<longrightarrow>
      (\<exists>sd' emitted cur. poll_server p w sd = Inr (sd', emitted) \<and>
         previousStatus sd' = Some cur \<and>
         (previousStatus sd = None \<longrightarrow>
            (\<exists>out. emitted = Some out \<and>
               field out ''triggerReason'' = Some (JString (Lit ''Initial status check'')))) \<and>
         (previousStatus sd = Some (\<not> cur) \<longrightarrow>
            (\<exists>out. emitted = Some out \<and>
               field out ''triggerReason'' =
                 Some (JString (Lit (if cur then ''Server came online'' else ''Server went offline''))))) \<and>
         (previousStatus sd = Some cur \<longrightarrow> emitted = None) \<and>
         (\<forall>w' sd'' emitted'. poll_server p w' sd' = Inr (sd'', emitted') \<and>
            previousStatus sd'' = Some cur \<longrightarrow> emitted' = None)))"
proof (intro conjI allI impI)
  note ts = trigger_ping_statusChange [OF assms]
  show "\<exists>cur. previousStatus (fst (poll p w sd)) = Some cur \<and>
      (previousStatus sd = None \<longrightarrow>
         (\<exists>out. snd (poll p w sd) = Some out \<and>
            field out ''triggerReason'' = Some (JString (Lit ''Initial status check'')))) \<and>
      (previousStatus sd = Some (\<not> cur) \<longrightarrow>
         (\<exists>out. snd (poll p w sd) = Some out \<and>
            field out ''triggerReason'' =
              Some (JString (Lit (if cur then ''Host came online'' else ''Host went offline''))))) \<and>
      (previousStatus sd = Some cur \<longrightarrow> snd (poll p w sd) = None) \<and>
      (\<forall>w'. previousStatus (fst (poll p w' (fst (poll p w sd)))) = Some cur \<longrightarrow>
         snd (poll p w' (fst (poll p w sd))) = None)"
    by (simp add: poll_result ts)
next
  fix target r n
  assume c: "check_trigger p w (timeout_of p * 1000) 0 = Some (target, Inr r, n)"
  note ts = trigger_server_statusChange [OF assms]
  have silent: "emitted' = None"
    if "poll_server p w' sd' = Inr (sd'', emitted')" "previousStatus sd'' = previousStatus sd'"
    for w' sd' sd'' emitted'
    using poll_server_statusChange_silent [OF assms that] .
  show "\<exists>sd' emitted cur. poll_server p w sd = Inr (sd', emitted) \<and>
         previousStatus sd' = Some cur \<and>
         (previousStatus sd = None \<longrightarrow>
            (\<exists>out. emitted = Some out \<and>
               field out ''triggerReason'' = Some (JString (Lit ''Initial status check'')))) \<and>
         (previousStatus sd = Some (\<not> cur) \<longrightarrow>
            (\<exists>out. emitted = Some out \<and>
               field out ''triggerReason'' =
                 Some (JString (Lit (if cur then ''Server came online'' else ''Server went offline''))))) \<and>
         (previousStatus sd = Some cur \<longrightarrow> emitted = None) \<and>
         (\<forall>w' sd'' emitted'. poll_server p w' sd' = Inr (sd'', emitted') \<and>
            previousStatus sd'' = Some cur \<longrightarrow> emitted' = None)"
    apply (simp add: poll_server_result [OF c] ts)
    apply (intro allI impI)
    apply (erule conjE)
    apply (rule silent)
     apply assumption
    apply simp
    done
qed

theorem statusChange_fires_on_change_witness:
  "triggerMode defaults = ''statusChange'' \<and>
   previousStatus fresh = None \<and>
   previousStatus (fst (poll defaults world_up fresh)) = Some True \<and>
   snd (poll defaults world_up fresh) \<noteq> None \<and>
   field (the (snd (poll defaults world_up fresh))) ''triggerReason'' =
     Some (JString (Lit ''Initial status check'')) \<and>
   snd (poll defaults world_up (fst (poll defaults world_up fresh))) = None \<and>
   previousStatus
     (fst (poll defaults world_down \<lparr> previousStatus = Some True, consecutiveFailures = Some 0 \<rparr>)) =
     Some False \<and>
   field (the (snd (poll defaults world_down
                      \<lparr> previousStatus = Some True, consecutiveFailures = Some 0 \<rparr>)))
     ''triggerReason'' = Some (JString (Lit ''Host went offline'')) \<and>
   snd (poll defaults world_up \<lparr> previousStatus = Some True, consecutiveFailures = Some 0 \<rparr>) = None \<and>
   check_trigger defaults world_up (timeout_of defaults * 1000) 0 =
     Some (Lit ''https://example.com'',
           Inr \<lparr> reachable = True, responseTimeMs = 145, error = None,
                 statusCode = Some 200, resolvedIp = None \<rparr>, 1) \<and>
   check_trigger defaults world_down (timeout_of defaults * 1000) 0 =
     Some (Lit ''https://example.com'',
           Inr \<lparr> reachable = False, responseTimeMs = 10000, error = Some ''Connection timeout'',
                 statusCode = None, resolvedIp = None \<rparr>, 1) \<and>
   poll_server defaults world_up fresh =
     Inr (\<lparr> previousStatus = Some True, consecutiveFailures = Some 0 \<rparr>,
          Some [(''checkType'', JString (Lit ''http'')),
                (''target'', JString (Lit ''https://example.com'')),
                (''reachable'', JBool True),
                (''status'', JString (Lit ''online'')),
                (''responseTimeMs'', JNumber (Num 145)),
                (''responseTime'', JString (Millis 145)),
                (''timestamp'', JString (Lit ''2024-01-15T10:30:00.000Z'')),
                (''triggerReason'', JString (Lit ''Initial status check'')),
                (''details'', JObject [(''consecutiveFailures'', JInt 0), (''failureThreshold'', JInt 2)]),
                (''statusCode'', JInt 200)]) \<and>
   poll_server defaults world_down \<lparr> previousStatus = Some True, consecutiveFailures = Some 0 \<rparr> =
     Inr (\<lparr> previousStatus = Some False, consecutiveFailures = Some 1 \<rparr>,
          Some [(''checkType'', JString (Lit ''http'')),
                (''target'', JString (Lit ''https://example.com'')),
                (''reachable'', JBool False),
                (''status'', JString (Lit ''offline'')),
                (''responseTimeMs'', JNumber (Num 10000)),
                (''responseTime'', JString (Millis 10000)),
                (''timestamp'', JString (Lit ''2024-01-15T10:31:00.000Z'')),
                (''triggerReason'', JString (Lit ''Server went offline'')),
                (''details'', JObject [(''consecutiveFailures'', JInt 1), (''failureThreshold'', JInt 2)]),
                (''error'', JString (Lit ''Connection timeout'')),
                (''previousStatus'', JString (Lit ''online'')),
                (''newStatus'', JString (Lit ''offline''))]) \<and>
   poll_server defaults world_up \<lparr> previousStatus = Some True, consecutiveFailures = Some 0 \<rparr> =
     Inr (\<lparr> previousStatus = Some True, consecutiveFailures = Some 0 \<rparr>, None)"
proof -
  have mode: "triggerMode defaults = ''statusChange''"
    by (simp add: defaults_def)
  have evaluated: ?thesis
    by (simp add: eval_defs)
  from statusChange_fires_on_change [OF mode, of world_up fresh]
    statusChange_fires_on_change [OF mode, of world_down
      "\<lparr> previousStatus = Some True, consecutiveFailures = Some 0 \<rparr>"]
    statusChange_fires_on_change [OF mode, of world_up
      "\<lparr> previousStatus = Some True, consecutiveFailures = Some 0 \<rparr>"]
    evaluated
  show ?thesis by simp
qed

text \<open>
  C6, as the code has it. In \<open>highLatency\<close> mode a cycle of either trigger emits an item
  if and only if the cycle is reachable (\<open>isAlive\<close>, \<open>checkResult.reachable\<close>) and the
  measured latency is strictly above the latency threshold. When the failure threshold is
  at least 1 that is: if and only if the status of the cycle is true and the latency is
  above the threshold, so that a cycle whose status is false emits nothing.
\<close>

theorem highLatency_fires:
  assumes "triggerMode p = ''highLatency''"
  shows
  "(snd (poll p w sd) \<noteq> None) =
     (isAlive (fst (pings p w)) \<and> avgTime (fst (pings p w)) > latencyThreshold p) \<and>
   (1 \<le> failureThreshold_of p \<longrightarrow>
      (snd (poll p w sd) \<noteq> None) =
        (previousStatus (fst (poll p w sd)) = Some True \<and>
         avgTime (fst (pings p w)) > latencyThreshold p)) \<and>
   (\<forall>target r n. check_trigger p w (timeout_of p * 1000) 0 = Some (target, Inr r, n) \<longrightarrow>
      (\<exists>sd' emitted. poll_server p w sd = Inr (sd', emitted) \<and>
         (emitted \<noteq> None) = (reachable r \<and> responseTimeMs r > latencyThreshold p) \<and>
         (1 \<le> failureThreshold_of p \<longrightarrow>
            (emitted \<noteq> None) =
              (previousStatus sd' = Some True \<and> responseTimeMs r > latencyThreshold p))))"
proof (intro conjI allI impI)
  note tp = trigger_ping_highLatency [OF assms]
  show "(snd (poll p w sd) \<noteq> None) =
     (isAlive (fst (pings p w)) \<and> avgTime (fst (pings p w)) > latencyThreshold p)"
    by (simp add: poll_result tp)
  show "(snd (poll p w sd) \<noteq> None) =
        (previousStatus (fst (poll p w sd)) = Some True \<and>
         avgTime (fst (pings p w)) > latencyThreshold p)"
    if "1 \<le> failureThreshold_of p"
    using that by (simp add: poll_result tp currentStatus_reachable)
next
  fix target r n
  assume c: "check_trigger p w (timeout_of p * 1000) 0 = Some (target, Inr r, n)"
  note ts = trigger_server_highLatency [OF assms]
  show "\<exists>sd' emitted. poll_server p w sd = Inr (sd', emitted) \<and>
         (emitted \<noteq> None) = (reachable r \<and> responseTimeMs r > latencyThreshold p) \<and>
         (1 \<le> failureThreshold_of p \<longrightarrow>
            (emitted \<noteq> None) =
              (previousStatus sd' = Some True \<and> responseTimeMs r > latencyThreshold p))"
    by (simp add: poll_server_result [OF c] ts currentStatus_reachable)
qed

theorem highLatency_fires_witness:
  "triggerMode (defaults \<lparr> triggerMode := ''highLatency'', latencyThreshold := 10 \<rparr>) = ''highLatency'' \<and>
   1 \<le> failureThreshold_of (defaults \<lparr> triggerMode := ''highLatency'', latencyThreshold := 10 \<rparr>) \<and>
   avgTime (fst (pings (defaults \<lparr> triggerMode := ''highLatency'', latencyThreshold := 10 \<rparr>) world_up)) = 20 \<and>
   previousStatus (fst (poll (defaults \<lparr> triggerMode := ''highLatency'', latencyThreshold := 10 \<rparr>)
                           world_up fresh)) = Some True \<and>
   snd (poll (defaults \<lparr> triggerMode := ''highLatency'', latencyThreshold := 10 \<rparr>) world_up fresh) \<noteq> None \<and>
   snd (poll (defaults \<lparr> triggerMode := ''highLatency'', latencyThreshold := 10 \<rparr>) world_down fresh) = None \<and>
   check_trigger (defaults \<lparr> triggerMode := ''highLatency'', latencyThreshold := 10 \<rparr>) world_up
       (timeout_of (defaults \<lparr> triggerMode := ''highLatency'', latencyThreshold := 10 \<rparr>) * 1000) 0 =
     Some (Lit ''https://example.com'',
           Inr \<lparr> reachable = True, responseTimeMs = 145, error = None,
                 statusCode = Some 200, resolvedIp = None \<rparr>, 1) \<and>
   poll_server (defaults \<lparr> triggerMode := ''highLatency'', latencyThreshold := 10 \<rparr>) world_up fresh =
     Inr (\<lparr> previousStatus = Some True, consecutiveFailures = Some 0 \<rparr>,
          Some [(''checkType'', JString (Lit ''http'')),
                (''target'', JString (Lit ''https://example.com'')),
                (''reachable'', JBool True),
                (''status'', JString (Lit ''online'')),
                (''responseTimeMs'', JNumber (Num 145)),
                (''responseTime'', JString (Millis 145)),
                (''timestamp'', JString (Lit ''2024-01-15T10:30:00.000Z'')),
                (''triggerReason'', JString (HighLatency 145 10)),
                (''details'', JObject [(''consecutiveFailures'', JInt 0), (''failureThreshold'', JInt 2)]),
                (''statusCode'', JInt 200),
                (''latencyThreshold'', JNumber (Num 10))])"
proof -
  have mode:
    "triggerMode (defaults \<lparr> triggerMode := ''highLatency'', latencyThreshold := 10 \<rparr>) = ''highLatency''"
    by simp
  have evaluated: ?thesis
    by (simp add: eval_defs)
  from highLatency_fires [OF mode, of world_up fresh] highLatency_fires [OF mode, of world_down fresh]
    evaluated
  show ?thesis by simp
qed

text \<open>
  C6 as the spec states it fails where the failure threshold is 0: the cycle below has the
  status offline and emits a high-latency item all the same.
\<close>

theorem highLatency_fires_while_offline:
  "poll (defaults \<lparr> triggerMode := ''highLatency'', latencyThreshold := 10,
                   options := no_options \<lparr> failureThreshold := Some 0 \<rparr> \<rparr>) world_up fresh =
     (\<lparr> previousStatus = Some False, consecutiveFailures = Some 0 \<rparr>,
      Some [(''host'', JString (Lit ''example.com'')),
            (''alive'', JBool True),
            (''status'', JString (Lit ''offline'')),
            (''responseTime'', JString (FixedMs (Num 20))),
            (''responseTimeMs'', JNumber (Num 20)),
            (''packetLoss'', JString (FixedPercent (Num 0))),
            (''packetLossPercent'', JNumber (Num 0)),
            (''timestamp'', JString (Lit ''2024-01-15T10:30:00.000Z'')),
            (''triggerReason'', JString (HighLatencyFixed 20 10)),
            (''details'', JObject
               [(''numericHost'', JString (Lit ''93.184.216.34'')),
                (''pingsAttempted'', JNumber (Num 3)),
                (''pingsSuccessful'', JInt 3),
                (''pingsFailed'', JNumber (Num 0)),
                (''minTime'', JString (FixedMs (Num 20))),
                (''maxTime'', JString (FixedMs (Num 20))),
                (''consecutiveFailures'', JInt 0),
                (''failureThreshold'', JInt 0)]),
            (''latencyThreshold'', JNumber (Num 10))])"
  by (simp add: eval_defs)

subsection \<open>The ping statistics\<close>

lemmas eval_node_defs = ping_item_def pings_node_def outputData_node_def numberOfPings_node_def
  pingLoop_node.simps json_of_time_def world_flaky_def

lemma pingLoop_node_successCount:
  "successCount (fst (snd s)) \<le> successCount (fst (snd (pingLoop_node w n i s))) \<and>
   successCount (fst (snd (pingLoop_node w n i s))) \<le> successCount (fst (snd s)) + max 0 \<lceil>n - real i\<rceil>"
proof (induction w n i s rule: pingLoop_node.induct)
  case (1 w n i pingResults c sent)
  show ?case
  proof (cases "real i < n")
    case True
    have cs: "successCount c \<le> successCount (count (pingReply w sent) c) \<and>
      successCount (count (pingReply w sent) c) \<le> successCount c + 1"
      by (rule count_successCount)
    have step: "max 0 \<lceil>n - real (Suc i)\<rceil> + 1 = max 0 \<lceil>n - real i\<rceil>"
      using True by (simp add: max_def) linarith
    from True 1 [OF True refl] cs step show ?thesis
      by (simp add: pingLoop_node.simps [of w n i] Let_def)
  next
    case False
    then show ?thesis by (simp add: pingLoop_node.simps [of w n i])
  qed
qed

lemma pingLoop_node_counted: "counted (fst (snd s)) \<Longrightarrow> counted (fst (snd (pingLoop_node w n i s)))"
proof (induction w n i s rule: pingLoop_node.induct)
  case (1 w n i pingResults c sent)
  show ?case
  proof (cases "real i < n")
    case True
    with 1 show ?thesis by (simp add: pingLoop_node.simps [of w n i] Let_def counted_count)
  next
    case False
    with 1 show ?thesis by (simp add: pingLoop_node.simps [of w n i])
  qed
qed

lemma pingLoop_node_nonempty: "fst s \<noteq> [] \<Longrightarrow> fst (pingLoop_node w n i s) \<noteq> []"
proof (induction w n i s rule: pingLoop_node.induct)
  case (1 w n i pingResults c sent)
  show ?case
  proof (cases "real i < n")
    case True
    with 1 show ?thesis by (simp add: pingLoop_node.simps [of w n i] Let_def)
  next
    case False
    with 1 show ?thesis by (simp add: pingLoop_node.simps [of w n i])
  qed
qed

lemma pings_node_nonempty: "0 < numberOfPings_node p \<Longrightarrow> fst (pings_node p w sent) \<noteq> []"
  by (simp add: pings_node_def pingLoop_node.simps [of w _ 0] Let_def pingLoop_node_nonempty)

lemma counted0: "counted counters0"
  by (simp add: counted_def counters0_def)

lemma pings_successCount:
  "0 \<le> successCount (fst (pings p w)) \<and>
   successCount (fst (pings p w)) \<le> max 0 \<lceil>numberOfPings_trigger p\<rceil>"
  using pingLoop_successCount [of "(counters0, [], [], 0)" w "numberOfPings_trigger p" 0]
  by (simp add: pings_def counters0_def)

lemma pings_node_successCount:
  "0 \<le> successCount (fst (snd (pings_node p w sent))) \<and>
   successCount (fst (snd (pings_node p w sent))) \<le> max 0 \<lceil>numberOfPings_node p\<rceil>"
  using pingLoop_node_successCount [of "([], counters0, sent)" w "numberOfPings_node p" 0]
  by (simp add: pings_node_def counters0_def)

lemma packetLoss_Num:
  "n \<noteq> 0 \<Longrightarrow> packetLoss n c = Num (100 * (n - real_of_int (successCount c)) / n)"
  by (simp add: packetLoss_def divide_js_def times_js_def)

lemma percentage_at_most_100:
  "0 \<le> s \<Longrightarrow> 1 \<le> n \<Longrightarrow> 100 * (n - real_of_int s) / n \<le> 100"
  by (simp add: field_simps)

lemma percentage_at_least_0:
  "real_of_int s \<le> n \<Longrightarrow> 1 \<le> n \<Longrightarrow> 0 \<le> 100 * (n - real_of_int s) / n"
  by (simp add: field_simps)

lemma whole_attempts: "n \<in> \<int> \<Longrightarrow> s \<le> \<lceil>n\<rceil> \<Longrightarrow> real_of_int s \<le> n"
  by (auto elim!: Ints_cases)

lemma outputData_ping_packetLoss:
  "field (outputData_ping p w c lo nh f s) ''packetLossPercent'' =
     Some (JNumber (packetLoss (numberOfPings_trigger p) c))"
  "field (outputData_ping p w c lo nh f s) ''packetLoss'' =
     Some (JString (FixedPercent (packetLoss (numberOfPings_trigger p) c)))"
  by (simp_all add: outputData_ping_def Let_def field_Cons)

lemma outputData_node_packetLoss:
  "field (outputData_node p w r c) ''packetLoss'' =
     Some (JString (FixedPercent (packetLoss (numberOfPings_node p) c)))"
  by (simp add: outputData_node_def Let_def field_Cons field_assign)

lemma ping_item_result:
  "host p \<noteq> [] \<Longrightarrow> 0 < numberOfPings_node p \<Longrightarrow>
   ping_item p w sent =
     (Inr (outputData_node p w (last (fst (pings_node p w sent))) (fst (snd (pings_node p w sent)))),
      snd (snd (pings_node p w sent)))"
  using pings_node_nonempty [of p w sent]
  by (cases "pings_node p w sent") (simp add: ping_item_def Let_def)

text \<open>
  C9, as the code has it. With a number of attempts \<open>n\<close> of at least 1 configured, the
  packet loss a cycle of the Ping Trigger and an item of the Ping node compute is
  \<open>100 * (n - successCount) / n\<close>; it is the number in \<open>packetLossPercent\<close> and the
  one printed in \<open>packetLoss\<close>. The loop sends as many probes as the smallest whole
  number that is not below \<open>n\<close>, so the success count lies between 0 and that number and
  the packet loss is at most 100. When \<open>n\<close> is a whole number the success count is at
  most \<open>n\<close> and the packet loss is at least 0.
\<close>

theorem packetLoss_percentage:
  assumes "1 \<le> n"
  shows
  "(numberOfPings_trigger p = n \<longrightarrow>
      0 \<le> successCount (fst (pings p w)) \<and> successCount (fst (pings p w)) \<le> \<lceil>n\<rceil> \<and>
      packetLoss n (fst (pings p w)) =
        Num (100 * (n - real_of_int (successCount (fst (pings p w)))) / n) \<and>
      100 * (n - real_of_int (successCount (fst (pings p w)))) / n \<le> 100 \<and>
      (n \<in> \<int> \<longrightarrow>
         real_of_int (successCount (fst (pings p w))) \<le> n \<and>
         0 \<le> 100 * (n - real_of_int (successCount (fst (pings p w)))) / n) \<and>
      (\<forall>out. snd (poll p w sd) = Some out \<longrightarrow>
         field out ''packetLossPercent'' =
           Some (JNumber (Num (100 * (n - real_of_int (successCount (fst (pings p w)))) / n))) \<and>
         field out ''packetLoss'' =
           Some (JString (FixedPercent
             (Num (100 * (n - real_of_int (successCount (fst (pings p w)))) / n)))))) \<and>
   (numberOfPings_node p = n \<longrightarrow>
      0 \<le> successCount (fst (snd (pings_node p w sent))) \<and>
      successCount (fst (snd (pings_node p w sent))) \<le> \<lceil>n\<rceil> \<and>
      packetLoss n (fst (snd (pings_node p w sent))) =
        Num (100 * (n - real_of_int (successCount (fst (snd (pings_node p w sent))))) / n) \<and>
      100 * (n - real_of_int (successCount (fst (snd (pings_node p w sent))))) / n \<le> 100 \<and>
      (n \<in> \<int> \<longrightarrow>
         real_of_int (successCount (fst (snd (pings_node p w sent)))) \<le> n \<and>
         0 \<le> 100 * (n - real_of_int (successCount (fst (snd (pings_node p w sent))))) / n) \<and>
      (host p \<noteq> [] \<longrightarrow>
         (\<exists>out sent'. ping_item p w sent = (Inr out, sent') \<and>
            field out ''packetLoss'' =
              Some (JString (FixedPercent
                (Num (100 * (n - real_of_int (successCount (fst (snd (pings_node p w sent))))) /
                      n)))))))"
proof (intro conjI impI allI)
  assume t: "numberOfPings_trigger p = n"
  from pings_successCount [of p w] t assms
  show lo: "0 \<le> successCount (fst (pings p w))" and hi: "successCount (fst (pings p w)) \<le> \<lceil>n\<rceil>"
    by simp_all
  from assms show pl: "packetLoss n (fst (pings p w)) =
        Num (100 * (n - real_of_int (successCount (fst (pings p w)))) / n)"
    by (simp add: packetLoss_Num)
  show "100 * (n - real_of_int (successCount (fst (pings p w)))) / n \<le> 100"
    by (rule percentage_at_most_100 [OF lo assms])
  show w: "real_of_int (successCount (fst (pings p w))) \<le> n" if "n \<in> \<int>"
    by (rule whole_attempts [OF that hi])
  show "0 \<le> 100 * (n - real_of_int (successCount (fst (pings p w)))) / n" if "n \<in> \<int>"
    by (rule percentage_at_least_0 [OF w [OF that] assms])
  fix out assume e: "snd (poll p w sd) = Some out"
  from e t pl show "field out ''packetLossPercent'' =
           Some (JNumber (Num (100 * (n - real_of_int (successCount (fst (pings p w)))) / n)))"
    by (simp add: poll_emitted_field outputData_ping_packetLoss)
  from e t pl show "field out ''packetLoss'' =
           Some (JString (FixedPercent
             (Num (100 * (n - real_of_int (successCount (fst (pings p w)))) / n))))"
    by (simp add: poll_emitted_field outputData_ping_packetLoss)
next
  assume t: "numberOfPings_node p = n"
  from pings_node_successCount [of p w sent] t assms
  show lo: "0 \<le> successCount (fst (snd (pings_node p w sent)))"
    and hi: "successCount (fst (snd (pings_node p w sent))) \<le> \<lceil>n\<rceil>"
    by simp_all
  from assms show pl: "packetLoss n (fst (snd (pings_node p w sent))) =
        Num (100 * (n - real_of_int (successCount (fst (snd (pings_node p w sent))))) / n)"
    by (simp add: packetLoss_Num)
  show "100 * (n - real_of_int (successCount (fst (snd (pings_node p w sent))))) / n \<le> 100"
    by (rule percentage_at_most_100 [OF lo assms])
  show w: "real_of_int (successCount (fst (snd (pings_node p w sent)))) \<le> n" if "n \<in> \<int>"
    by (rule whole_attempts [OF that hi])
  show "0 \<le> 100 * (n - real_of_int (successCount (fst (snd (pings_node p w sent))))) / n"
    if "n \<in> \<int>"
    by (rule percentage_at_least_0 [OF w [OF that] assms])
  assume h: "host p \<noteq> []"
  from h t assms pl show "\<exists>out sent'. ping_item p w sent = (Inr out, sent') \<and>
            field out ''packetLoss'' =
              Some (JString (FixedPercent
                (Num (100 * (n - real_of_int (successCount (fst (snd (pings_node p w sent))))) /
                      n))))"
    by (simp add: ping_item_result outputData_node_packetLoss)
qed

theorem packetLoss_percentage_witness:
  "(1::real) \<le> 4 \<and> (4::real) \<in> \<int> \<and>
   numberOfPings_trigger (defaults \<lparr> options := no_options \<lparr> numberOfPings := Some 4 \<rparr> \<rparr>) = 4 \<and>
   numberOfPings_node (defaults \<lparr> options := no_options \<lparr> numberOfPings := Some 4 \<rparr> \<rparr>) = 4 \<and>
   host (defaults \<lparr> options := no_options \<lparr> numberOfPings := Some 4 \<rparr> \<rparr>) \<noteq> [] \<and>
   successCount (fst (pings (defaults \<lparr> options := no_options \<lparr> numberOfPings := Some 4 \<rparr> \<rparr>)
                        world_flaky)) = 2 \<and>
   packetLoss 4 (fst (pings (defaults \<lparr> options := no_options \<lparr> numberOfPings := Some 4 \<rparr> \<rparr>)
                        world_flaky)) = Num 50 \<and>
   snd (poll (defaults \<lparr> options := no_options \<lparr> numberOfPings := Some 4 \<rparr> \<rparr>) world_flaky fresh)
     \<noteq> None \<and>
   field (the (snd (poll (defaults \<lparr> options := no_options \<lparr> numberOfPings := Some 4 \<rparr> \<rparr>)
                      world_flaky fresh))) ''packetLossPercent'' = Some (JNumber (Num 50)) \<and>
   successCount (fst (snd (pings_node (defaults \<lparr> options := no_options \<lparr> numberOfPings := Some 4 \<rparr> \<rparr>)
                             world_flaky 0))) = 2 \<and>
   ping_item (defaults \<lparr> options := no_options \<lparr> numberOfPings := Some 4 \<rparr> \<rparr>) world_flaky 0 =
     (Inr [(''host'', JString (Lit ''example.com'')),
           (''alive'', JBool True),
           (''status'', JString (Lit ''reachable'')),
           (''responseTime'', JNumber (Num 20)),
           (''packetLoss'', JString (FixedPercent (Num 50))),
           (''timestamp'', JString (Lit ''2024-01-15T10:32:00.000Z'')),
           (''details'', JObject
              [(''numericHost'', JString (Lit ''93.184.216.34'')),
               (''pingsAttempted'', JNumber (Num 4)),
               (''pingsSuccessful'', JInt 2),
               (''pingsFailed'', JNumber (Num 2)),
               (''averageTime'', JString (FixedMs (Num 20))),
               (''minTime'', JString (FixedMs (Num 20))),
               (''maxTime'', JString (FixedMs (Num 20))),
               (''output'', JString (Lit ''1 packets received''))])], 4)"
proof -
  have attempts: "(1::real) \<le> 4"
    by simp
  have evaluated: ?thesis
    by (simp add: eval_defs eval_node_defs)
  from packetLoss_percentage [OF attempts,
      of "defaults \<lparr> options := no_options \<lparr> numberOfPings := Some 4 \<rparr> \<rparr>" world_flaky fresh 0]
    evaluated
  show ?thesis by simp
qed

text \<open>
  C9 as the spec states it fails where the number of pings is not a whole number, a value
  the number field accepts: with 1.5 pings configured the loop sends two probes, both are
  answered, and the packet loss is a third of 100 below 0.
\<close>

theorem fractional_attempts_negative_loss:
  "(1::real) \<le> 3 / 2 \<and>
   poll (defaults \<lparr> options := no_options \<lparr> numberOfPings := Some (3 / 2) \<rparr> \<rparr>) world_up fresh =
     (\<lparr> previousStatus = Some True, consecutiveFailures = Some 0 \<rparr>,
      Some [(''host'', JString (Lit ''example.com'')),
            (''alive'', JBool True),
            (''status'', JString (Lit ''online'')),
            (''responseTime'', JString (FixedMs (Num 20))),
            (''responseTimeMs'', JNumber (Num 20)),
            (''packetLoss'', JString (FixedPercent (Num (- (100 / 3))))),
            (''packetLossPercent'', JNumber (Num (- (100 / 3)))),
            (''timestamp'', JString (Lit ''2024-01-15T10:30:00.000Z'')),
            (''triggerReason'', JString (Lit ''Initial status check'')),
            (''details'', JObject
               [(''numericHost'', JString (Lit ''93.184.216.34'')),
                (''pingsAttempted'', JNumber (Num (3 / 2))),
                (''pingsSuccessful'', JInt 2),
                (''pingsFailed'', JNumber (Num (- (1 / 2)))),
                (''minTime'', JString (FixedMs (Num 20))),
                (''maxTime'', JString (FixedMs (Num 20))),
                (''consecutiveFailures'', JInt 0),
                (''failureThreshold'', JInt 2)])])"
  by (simp add: eval_defs)

subsection \<open>A cycle in which every attempt fails\<close>

lemma pings_counted: "counted (fst (pings p w))"
  using pingLoop_counted [of "(counters0, [], [], 0)" w "numberOfPings_trigger p" 0]
  by (simp add: pings_def counted0)

lemma pings_node_counted: "counted (fst (snd (pings_node p w sent)))"
  using pingLoop_node_counted [of "([], counters0, sent)" w "numberOfPings_node p" 0]
  by (simp add: pings_node_def counted0)

lemma no_infinity_assign:
  "\<not> shows_infinity v \<Longrightarrow> \<not> list_ex (\<lambda>kv. shows_infinity (snd kv)) obj \<Longrightarrow>
   \<not> list_ex (\<lambda>kv. shows_infinity (snd kv)) (assign k v obj)"
  by (induction obj) auto

lemma no_infinity_online_offline: "\<not> shows_infinity (online_offline b)"
  by (simp add: online_offline_def)

lemma trigger_ping_no_infinity:
  "\<not> shows_infinity (JObject out) \<Longrightarrow>
   \<not> shows_infinity (JObject (snd (trigger_ping p prev cur al av out)))"
  by (simp add: trigger_ping_def Let_def no_infinity_assign no_infinity_online_offline is_infinity_def
      split: option.splits)

lemma packetLoss_failed:
  "successCount c = 0 \<Longrightarrow> packetLoss n c = (if n = 0 then NaN else Num 100)"
  by (simp add: packetLoss_def divide_js_def times_js_def)

lemma outputData_ping_failed:
  assumes "successCount c = 0" "counted c"
  shows "field (outputData_ping p w c lo nh f s) ''responseTime'' = Some (JString (Lit ''N/A''))"
    and "field (outputData_ping p w c lo nh f s) ''responseTimeMs'' = Some (JNumber (Num 0))"
    and "detail (outputData_ping p w c lo nh f s) ''minTime'' = Some (JString (Lit ''N/A''))"
    and "detail (outputData_ping p w c lo nh f s) ''maxTime'' = Some (JString (Lit ''N/A''))"
    and "\<not> shows_infinity (JObject (outputData_ping p w c lo nh f s))"
  using assms
  by (simp_all add: outputData_ping_def Let_def field_Cons field_assign detail_def avgTime_def
      counted_def packetLoss_failed no_infinity_online_offline is_infinity_def no_infinity_assign)

lemma poll_emitted_detail:
  assumes "snd (poll p w sd) = Some out"
  shows "detail out k =
     detail (outputData_ping p w (fst (pings p w)) (fst (snd (pings p w))) (fst (snd (snd (pings p w))))
        (newConsecutiveFailures (consecutiveFailures_or_0 sd) (isAlive (fst (pings p w))))
        (currentStatus (newConsecutiveFailures (consecutiveFailures_or_0 sd) (isAlive (fst (pings p w))))
           (failureThreshold_of p) (isAlive (fst (pings p w))))) k"
  by (simp add: detail_def poll_emitted_field [OF assms])

lemma poll_emitted_no_infinity:
  assumes "snd (poll p w sd) = Some out" "successCount (fst (pings p w)) = 0"
  shows "\<not> shows_infinity (JObject out)"
proof -
  from assms(1) have "out = snd (trigger_ping p (previousStatus sd)
      (currentStatus (newConsecutiveFailures (consecutiveFailures_or_0 sd) (isAlive (fst (pings p w))))
           (failureThreshold_of p) (isAlive (fst (pings p w))))
      (isAlive (fst (pings p w))) (avgTime (fst (pings p w)))
      (outputData_ping p w (fst (pings p w)) (fst (snd (pings p w))) (fst (snd (snd (pings p w))))
        (newConsecutiveFailures (consecutiveFailures_or_0 sd) (isAlive (fst (pings p w))))
        (currentStatus (newConsecutiveFailures (consecutiveFailures_or_0 sd) (isAlive (fst (pings p w))))
           (failureThreshold_of p) (isAlive (fst (pings p w))))))"
    by (simp add: poll_result split: if_splits)
  with trigger_ping_no_infinity [OF outputData_ping_failed(5) [OF assms(2) pings_counted]]
  show ?thesis
    by simp
qed

lemma outputData_node_failed:
  assumes "successCount c = 0" "counted c"
  shows "field (outputData_node p w r c) ''details'' \<noteq> None \<longrightarrow>
           detail (outputData_node p w r c) ''averageTime'' = Some (JString (Lit ''N/A'')) \<and>
           detail (outputData_node p w r c) ''minTime'' = Some (JString (Lit ''N/A'')) \<and>
           detail (outputData_node p w r c) ''maxTime'' = Some (JString (Lit ''N/A''))"
    and "\<not> shows_infinity (JObject (outputData_node p w r c))"
    and "(field (outputData_node p w r c) ''details'' \<noteq> None) =
           (includeDetails (options p) \<noteq> Some False)"
  using assms
  by (auto simp add: outputData_node_def Let_def field_Cons field_assign field_Nil detail_def avgTime_def
      counted_def packetLoss_failed is_infinity_def json_of_time_def
      split: option.splits ping_time.splits)

lemma ping_item_Inr:
  "ping_item p w sent = (Inr out, sent') \<Longrightarrow>
   out = outputData_node p w (last (fst (pings_node p w sent))) (fst (snd (pings_node p w sent)))"
  by (cases "pings_node p w sent") (auto simp add: ping_item_def Let_def split: if_splits)

text \<open>
  C4, as the code has it. When every attempt of a cycle fails (\<open>successCount = 0\<close>), an
  item the Ping Trigger emits prints the average, the minimum and the maximum latency as
  \<open>N/A\<close> (\<open>responseTime\<close>, \<open>details.minTime\<close>, \<open>details.maxTime\<close>), its numeric
  field \<open>responseTimeMs\<close> is 0, and \<open>Infinity\<close> shows in none of its fields. An item of
  the Ping node has its details exactly when \<open>includeDetails\<close> is not switched off, the
  details print the three latencies as \<open>N/A\<close>, and \<open>Infinity\<close> shows in none of its
  fields.
\<close>

theorem failed_latencies_not_applicable:
  "(successCount (fst (pings p w)) = 0 \<longrightarrow>
      (\<forall>out. snd (poll p w sd) = Some out \<longrightarrow>
         field out ''responseTime'' = Some (JString (Lit ''N/A'')) \<and>
         detail out ''minTime'' = Some (JString (Lit ''N/A'')) \<and>
         detail out ''maxTime'' = Some (JString (Lit ''N/A'')) \<and>
         field out ''responseTimeMs'' = Some (JNumber (Num 0)) \<and>
         \<not> shows_infinity (JObject out))) \<and>
   (successCount (fst (snd (pings_node p w sent))) = 0 \<longrightarrow>
      (\<forall>out sent'. ping_item p w sent = (Inr out, sent') \<longrightarrow>
         (field out ''details'' \<noteq> None) = (includeDetails (options p) \<noteq> Some False) \<and>
         (field out ''details'' \<noteq> None \<longrightarrow>
            detail out ''averageTime'' = Some (JString (Lit ''N/A'')) \<and>
            detail out ''minTime'' = Some (JString (Lit ''N/A'')) \<and>
            detail out ''maxTime'' = Some (JString (Lit ''N/A''))) \<and>
         \<not> shows_infinity (JObject out)))"
proof (intro conjI impI allI)
  fix out
  assume z: "successCount (fst (pings p w)) = 0" and e: "snd (poll p w sd) = Some out"
  note f = outputData_ping_failed [OF z pings_counted]
  show "field out ''responseTime'' = Some (JString (Lit ''N/A''))"
    by (simp add: poll_emitted_field [OF e] f(1))
  show "field out ''responseTimeMs'' = Some (JNumber (Num 0))"
    by (simp add: poll_emitted_field [OF e] f(2))
  show "detail out ''minTime'' = Some (JString (Lit ''N/A''))"
    by (simp add: poll_emitted_detail [OF e] f(3))
  show "detail out ''maxTime'' = Some (JString (Lit ''N/A''))"
    by (simp add: poll_emitted_detail [OF e] f(4))
  show "\<not> shows_infinity (JObject out)"
    by (rule poll_emitted_no_infinity [OF e z])
next
  fix out sent'
  assume z: "successCount (fst (snd (pings_node p w sent))) = 0"
    and e: "ping_item p w sent = (Inr out, sent')"
  note f = outputData_node_failed [OF z pings_node_counted]
  note o = ping_item_Inr [OF e]
  show "(field out ''details'' \<noteq> None) = (includeDetails (options p) \<noteq> Some False)"
    unfolding o by (rule f(3))
  show "\<not> shows_infinity (JObject out)"
    unfolding o by (rule f(2))
  assume "field out ''details'' \<noteq> None"
  with f(1) [of p w "last (fst (pings_node p w sent))"]
  show "detail out ''averageTime'' = Some (JString (Lit ''N/A''))"
    and "detail out ''minTime'' = Some (JString (Lit ''N/A''))"
    and "detail out ''maxTime'' = Some (JString (Lit ''N/A''))"
    unfolding o by simp_all
qed

theorem failed_latencies_not_applicable_witness:
  "successCount (fst (pings defaults world_down)) = 0 \<and>
   snd (poll defaults world_down fresh) \<noteq> None \<and>
   field (the (snd (poll defaults world_down fresh))) ''responseTime'' = Some (JString (Lit ''N/A'')) \<and>
   detail (the (snd (poll defaults world_down fresh))) ''minTime'' = Some (JString (Lit ''N/A'')) \<and>
   successCount (fst (snd (pings_node defaults world_down 0))) = 0 \<and>
   ping_item defaults world_down 0 =
     (Inr [(''host'', JString (Lit ''example.com'')),
           (''alive'', JBool False),
           (''status'', JString (Lit ''unreachable'')),
           (''responseTime'', JString (Lit ''unknown'')),
           (''packetLoss'', JString (FixedPercent (Num 100))),
           (''timestamp'', JString (Lit ''2024-01-15T10:31:00.000Z'')),
           (''details'', JObject
              [(''numericHost'', JString (Lit ''93.184.216.34'')),
               (''pingsAttempted'', JNumber (Num 1)),
               (''pingsSuccessful'', JInt 0),
               (''pingsFailed'', JNumber (Num 1)),
               (''averageTime'', JString (Lit ''N/A'')),
               (''minTime'', JString (Lit ''N/A'')),
               (''maxTime'', JString (Lit ''N/A'')),
               (''output'', JString (Lit ''0 packets received''))])], 1)"
proof -
  have evaluated: ?thesis
    by (simp add: eval_defs eval_node_defs detail_def)
  from failed_latencies_not_applicable [of defaults world_down fresh 0] evaluated
  show ?thesis by simp
qed

text \<open>
  C4 as the spec states it fails on the Ping Trigger: with every ping failed the emitted
  item carries the average latency as the number 0 in \<open>responseTimeMs\<close>.
\<close>

theorem failed_cycle_reports_zero_latency:
  "successCount (fst (pings defaults world_down)) = 0 \<and>
   poll defaults world_down fresh =
     (\<lparr> previousStatus = Some False, consecutiveFailures = Some 1 \<rparr>,
      Some [(''host'', JString (Lit ''example.com'')),
            (''alive'', JBool False),
            (''status'', JString (Lit ''offline'')),
            (''responseTime'', JString (Lit ''N/A'')),
            (''responseTimeMs'', JNumber (Num 0)),
            (''packetLoss'', JString (FixedPercent (Num 100))),
            (''packetLossPercent'', JNumber (Num 100)),
            (''timestamp'', JString (Lit ''2024-01-15T10:31:00.000Z'')),
            (''triggerReason'', JString (Lit ''Initial status check'')),
            (''details'', JObject
               [(''numericHost'', JString (Lit ''93.184.216.34'')),
                (''pingsAttempted'', JNumber (Num 3)),
                (''pingsSuccessful'', JInt 0),
                (''pingsFailed'', JNumber (Num 3)),
                (''minTime'', JString (Lit ''N/A'')),
                (''maxTime'', JString (Lit ''N/A'')),
                (''consecutiveFailures'', JInt 1),
                (''failureThreshold'', JInt 2)])])"
  by (simp add: eval_defs)

subsection \<open>Checks, targets and options\<close>

lemmas eval_server_defs = check_item_def executeHttpCheck_def executeTcpCheck_def executeDnsCheck_def
  validPort_def

text \<open>
  C10. An HTTP(S) check whose request gets a response: the check of the Server Check node
  reports it reachable when \<open>acceptAnyStatus\<close> is on, which is the declared default,
  and otherwise exactly when the status code (0 when the response has none) is at least 200
  and below 400; the check of the Server Check Trigger, which has no such option, reports
  every response reachable. Whatever the request ends with, a check sends exactly one
  request, and none when the URL is empty or does not parse or the platform refuses a
  negative timeout; a response is then the response to a request that was sent.
\<close>

theorem http_reachability_policy:
  "(httpReply w sent = HttpResponse code statusMessage responseTime \<and> url p \<noteq> [] \<and>
    validUrl w (url p) \<and> 0 \<le> timeout' \<longrightarrow>
      (\<exists>out. executeHttpCheck p w timeout' sent = (Inr out, Suc sent) \<and>
         field out ''reachable'' =
           Some (JBool (acceptAnyStatus p \<or>
                        200 \<le> (case code of None \<Rightarrow> 0 | Some c \<Rightarrow> c) \<and>
                        (case code of None \<Rightarrow> 0 | Some c \<Rightarrow> c) < 400)) \<and>
         field out ''status'' =
           Some (online_offline (acceptAnyStatus p \<or>
                        200 \<le> (case code of None \<Rightarrow> 0 | Some c \<Rightarrow> c) \<and>
                        (case code of None \<Rightarrow> 0 | Some c \<Rightarrow> c) < 400)))) \<and>
   (httpReply w sent = HttpResponse code statusMessage responseTime \<and> validUrl w u \<and>
    0 \<le> timeout' \<longrightarrow>
      executeHttpCheck_trigger w u method timeout' sent =
        (Inr \<lparr> reachable = True, responseTimeMs = responseTime, error = None,
               statusCode = code, resolvedIp = None \<rparr>, Suc sent)) \<and>
   snd (executeHttpCheck p w timeout' sent) =
     (if url p = [] \<or> \<not> validUrl w (url p) \<or> timeout' < 0 then sent else Suc sent) \<and>
   snd (executeHttpCheck_trigger w u method timeout' sent) =
     (if \<not> validUrl w u \<or> timeout' < 0 then sent else Suc sent) \<and>
   acceptAnyStatus defaults = True"
  by (auto simp add: executeHttpCheck_def executeHttpCheck_trigger_def Let_def field_Cons
      online_offline_def defaults_def)

theorem http_reachability_policy_witness:
  "httpReply world_flaky 1 = HttpResponse (Some 503) ''Service Unavailable'' 80 \<and>
   url defaults \<noteq> [] \<and> validUrl world_flaky (url defaults) \<and> (0::real) \<le> 10000 \<and>
   executeHttpCheck defaults world_flaky 10000 1 =
     (Inr [(''checkType'', JString (Lit ''http'')),
           (''url'', JString (Lit ''https://example.com'')),
           (''method'', JString (Lit ''GET'')),
           (''reachable'', JBool True),
           (''status'', JString (Lit ''online'')),
           (''statusCode'', JInt 503),
           (''statusMessage'', JString (Lit ''Service Unavailable'')),
           (''responseTimeMs'', JNumber (Num 80)),
           (''responseTime'', JString (Millis 80)),
           (''timestamp'', JString (Lit ''2024-01-15T10:32:00.000Z''))], 2) \<and>
   executeHttpCheck (defaults \<lparr> acceptAnyStatus := False \<rparr>) world_flaky 10000 1 =
     (Inr [(''checkType'', JString (Lit ''http'')),
           (''url'', JString (Lit ''https://example.com'')),
           (''method'', JString (Lit ''GET'')),
           (''reachable'', JBool False),
           (''status'', JString (Lit ''offline'')),
           (''statusCode'', JInt 503),
           (''statusMessage'', JString (Lit ''Service Unavailable'')),
           (''responseTimeMs'', JNumber (Num 80)),
           (''responseTime'', JString (Millis 80)),
           (''timestamp'', JString (Lit ''2024-01-15T10:32:00.000Z''))], 2) \<and>
   executeHttpCheck_trigger world_flaky ''https://example.com'' ''GET'' 10000 1 =
     (Inr \<lparr> reachable = True, responseTimeMs = 80, error = None,
            statusCode = Some 503, resolvedIp = None \<rparr>, 2)"
proof -
  have evaluated: ?thesis
    by (simp add: eval_defs eval_node_defs eval_server_defs)
  from http_reachability_policy [of world_flaky 1 "Some 503" "''Service Unavailable''" 80 defaults
      10000 "''https://example.com''" "''GET''"]
    http_reachability_policy [of world_flaky 1 "Some 503" "''Service Unavailable''" 80
      "defaults \<lparr> acceptAnyStatus := False \<rparr>" 10000 "''https://example.com''" "''GET''"]
    evaluated
  show ?thesis by simp
qed

text \<open>
  C8. The spec has every check operation raise a configuration error on an empty target.
  The nodes do: the Ping node and the TCP check of the Server Check node throw
  \<open>Host is required\<close>. The triggers do not look at the target: with an empty host the
  Ping Trigger and the TCP check of the Server Check Trigger probe all the same, and the
  cycle ends as any cycle with a failed probe does, reporting the host offline.
\<close>

theorem empty_host_is_probed_by_the_triggers:
  "ping_item (defaults \<lparr> host := [] \<rparr>) world_down 0 =
     (Inl (NodeOperationError ''Host is required''), 0) \<and>
   check_item (defaults \<lparr> checkType := ''tcp'', host := [] \<rparr>) world_down 0 =
     (Inl (NodeOperationError ''Host is required''), 0) \<and>
   poll (defaults \<lparr> host := [] \<rparr>) world_down fresh =
     (\<lparr> previousStatus = Some False, consecutiveFailures = Some 1 \<rparr>,
      Some [(''host'', JString (Lit [])),
            (''alive'', JBool False),
            (''status'', JString (Lit ''offline'')),
            (''responseTime'', JString (Lit ''N/A'')),
            (''responseTimeMs'', JNumber (Num 0)),
            (''packetLoss'', JString (FixedPercent (Num 100))),
            (''packetLossPercent'', JNumber (Num 100)),
            (''timestamp'', JString (Lit ''2024-01-15T10:31:00.000Z'')),
            (''triggerReason'', JString (Lit ''Initial status check'')),
            (''details'', JObject
               [(''numericHost'', JString (Lit ''93.184.216.34'')),
                (''pingsAttempted'', JNumber (Num 3)),
                (''pingsSuccessful'', JInt 0),
                (''pingsFailed'', JNumber (Num 3)),
                (''minTime'', JString (Lit ''N/A'')),
                (''maxTime'', JString (Lit ''N/A'')),
                (''consecutiveFailures'', JInt 1),
                (''failureThreshold'', JInt 2)])]) \<and>
   poll_server (defaults \<lparr> checkType := ''tcp'', host := [] \<rparr>) world_down fresh =
     Inr (\<lparr> previousStatus = Some False, consecutiveFailures = Some 1 \<rparr>,
          Some [(''checkType'', JString (Lit ''tcp'')),
                (''target'', JString (HostPort [] 443)),
                (''reachable'', JBool False),
                (''status'', JString (Lit ''offline'')),
                (''responseTimeMs'', JNumber (Num 10000)),
                (''responseTime'', JString (Millis 10000)),
                (''timestamp'', JString (Lit ''2024-01-15T10:31:00.000Z'')),
                (''triggerReason'', JString (Lit ''Initial status check'')),
                (''details'', JObject [(''consecutiveFailures'', JInt 1), (''failureThreshold'', JInt 2)]),
                (''error'', JString (Lit ''Connection timeout''))])"
  by (simp add: eval_defs eval_node_defs eval_server_defs)











end
